theory Spec2Isabelle
  imports Complex_Main
begin

section \<open>The cube state (src/logic/Cube.js, class Cube)\<close>

text \<open>
  A sticker is a JavaScript value held in a face grid: a colour code (a string such as
  \<open>'W'\<close>), or \<open>undefined\<close> in the empty slots of a matrix made by \<open>Array(size)\<close>
  before the rotation loops have filled it.
\<close>

datatype sticker = Undefined | Str string

type_synonym grid = "sticker list list"

text \<open>The six keys of \<open>this.faces\<close>, in the insertion order of \<open>initializeFaces\<close>.\<close>

datatype face = U | D | L | R | F | B

definition faceKeys :: "face list" where
  "faceKeys = [U, D, L, R, F, B]"

text \<open>
  The object: \<open>this.size\<close> and \<open>this.faces\<close>. The grids are values here; the source
  builds every row as a fresh array (\<open>initializeFaces\<close>, \<open>clone\<close>, the rotations), so
  no two rows of a cube are the same array and in-place writes touch one row only.
\<close>

record cube =
  size_c :: nat
  faces :: "face \<Rightarrow> grid"

text \<open>
  Well-formed cubes: every face is a \<open>size\<close> by \<open>size\<close> grid. All reads \<open>g ! i ! j\<close> of
  the model are in range on such cubes, except the ones written out as failures below
  (\<open>this.faces.U[2]\<close> in \<open>moveFFaceStickers\<close>, \<open>this.faces[face][0][0]\<close> in
  \<open>isSolved\<close>), which raise a TypeError when the row is missing.
\<close>

definition wf_grid :: "nat \<Rightarrow> grid \<Rightarrow> bool" where
  "wf_grid n g = (length g = n \<and> list_all (\<lambda>row. length row = n) g)"

definition wf :: "cube \<Rightarrow> bool" where
  "wf c = list_all (\<lambda>face. wf_grid (size_c c) (faces c face)) faceKeys"

datatype error = TypeError

text \<open>
  A method that mutates the cube either completes, or throws with the cube left as it
  was at the throw.
\<close>

datatype result = Completed cube | Threw error cube

definition defaultColors :: "face \<Rightarrow> string" where
  "defaultColors face = (case face of U \<Rightarrow> ''W'' | D \<Rightarrow> ''Y'' | L \<Rightarrow> ''G''
     | R \<Rightarrow> ''B'' | F \<Rightarrow> ''R'' | B \<Rightarrow> ''O'')"

text \<open>\<open>initializeFaces\<close>: the loop \<open>for (const face in faces)\<close> over the six keys.\<close>

definition initializeFaces :: "nat \<Rightarrow> bool \<Rightarrow> face \<Rightarrow> grid" where
  "initializeFaces n initializeAsBlank =
     (if initializeAsBlank
      then fold (\<lambda>face fs. fs(face := replicate n (replicate n (Str ''W''))))
             faceKeys (\<lambda>face. [])
      else fold (\<lambda>face fs. fs(face := replicate n (replicate n (Str (defaultColors face)))))
             faceKeys (\<lambda>face. []))"

text \<open>\<open>new Cube(size, initializeAsBlank)\<close>.\<close>

definition Cube :: "nat \<Rightarrow> bool \<Rightarrow> cube" where
  "Cube n initializeAsBlank =
     \<lparr>size_c = n, faces = initializeFaces n initializeAsBlank\<rparr>"

text \<open>
  \<open>isSolved\<close>: for each face in key order, \<open>color = this.faces[face][0][0]\<close> (a TypeError
  when the face has no row 0), then the two nested loops return false at the first
  sticker that differs from \<open>color\<close>.
\<close>

fun isSolved_from :: "cube \<Rightarrow> face list \<Rightarrow> error + bool" where
  "isSolved_from c [] = Inr True"
| "isSolved_from c (face # rest) =
     (if faces c face = [] then Inl TypeError
      else let color = (if faces c face ! 0 = [] then Undefined else faces c face ! 0 ! 0)
           in if list_all (\<lambda>i. list_all (\<lambda>j. faces c face ! i ! j = color)
                                  [0..<size_c c]) [0..<size_c c]
              then isSolved_from c rest
              else Inr False)"

definition isSolved :: "cube \<Rightarrow> error + bool" where
  "isSolved c = isSolved_from c faceKeys"

subsection \<open>Face rotation\<close>

text \<open>The assignment \<open>m[i][j] = v\<close> on a grid.\<close>

definition set2 :: "grid \<Rightarrow> nat \<Rightarrow> nat \<Rightarrow> sticker \<Rightarrow> grid" where
  "set2 m i j v = m[i := (m ! i)[j := v]]"

text \<open>The assignment \<open>this.faces.X[i][j] = v\<close> on the cube.\<close>

definition assign :: "cube \<Rightarrow> face \<Rightarrow> nat \<Rightarrow> nat \<Rightarrow> sticker \<Rightarrow> cube" where
  "assign c face i j v = c\<lparr>faces := (faces c)(face := set2 (faces c face) i j v)\<rparr>"

text \<open>\<open>Array(this.size).fill().map(() => Array(this.size))\<close>.\<close>

definition emptyMatrix :: "nat \<Rightarrow> grid" where
  "emptyMatrix n = replicate n (replicate n Undefined)"

definition rotateFaceClockwise :: "face \<Rightarrow> cube \<Rightarrow> cube" where
  "rotateFaceClockwise face c =
     (let faceMatrix = faces c face;
          n = size_c c;
          newMatrix = fold (\<lambda>i m. fold (\<lambda>j m. set2 m j (n - 1 - i) (faceMatrix ! i ! j))
                                     [0..<n] m)
                        [0..<n] (emptyMatrix n)
      in c\<lparr>faces := (faces c)(face := newMatrix)\<rparr>)"

definition rotateFaceCounterClockwise :: "face \<Rightarrow> cube \<Rightarrow> cube" where
  "rotateFaceCounterClockwise face c =
     (let faceMatrix = faces c face;
          n = size_c c;
          newMatrix = fold (\<lambda>i m. fold (\<lambda>j m. set2 m (n - 1 - j) i (faceMatrix ! i ! j))
                                     [0..<n] m)
                        [0..<n] (emptyMatrix n)
      in c\<lparr>faces := (faces c)(face := newMatrix)\<rparr>)"

subsection \<open>Boundary stickers\<close>

text \<open>
  \<open>moveFFaceStickers\<close>. The clockwise branch copies \<open>this.faces.U[2]\<close>: the spread of
  \<open>undefined\<close> throws a TypeError when the U face has no row 2. The counter-clockwise
  branch copies \<open>this.faces.U[this.size - 1]\<close>. Each of the four loops writes one strip,
  reading the cube as the loops before it have left it.
\<close>

definition moveFFaceStickers :: "bool \<Rightarrow> cube \<Rightarrow> result" where
  "moveFFaceStickers clockwise c =
     (let n = size_c c in
      if clockwise then
        if 2 < length (faces c U) then
          let temp = faces c U ! 2;
              c = fold (\<lambda>i c. assign c U (n - 1) i (faces c L ! (n - 1 - i) ! (n - 1)))
                    [0..<n] c;
              c = fold (\<lambda>i c. assign c L i (n - 1) (faces c D ! 0 ! i)) [0..<n] c;
              c = fold (\<lambda>i c. assign c D 0 i (faces c R ! (n - 1 - i) ! 0)) [0..<n] c;
              c = fold (\<lambda>i c. assign c R i 0 (temp ! i)) [0..<n] c
          in Completed c
        else Threw TypeError c
      else
        if 0 < n \<and> n - 1 < length (faces c U) then
          let temp = faces c U ! (n - 1);
              c = fold (\<lambda>i c. assign c U (n - 1) i (faces c R ! i ! 0)) [0..<n] c;
              c = fold (\<lambda>i c. assign c R i 0 (faces c D ! 0 ! (n - 1 - i))) [0..<n] c;
              c = fold (\<lambda>i c. assign c D 0 i (faces c L ! i ! (n - 1))) [0..<n] c;
              c = fold (\<lambda>i c. assign c L (n - 1 - i) (n - 1) (temp ! i)) [0..<n] c
          in Completed c
        else Threw TypeError c)"

text \<open>The five other methods have an empty body.\<close>

definition moveBFaceStickers :: "bool \<Rightarrow> cube \<Rightarrow> result" where
  "moveBFaceStickers clockwise c = Completed c"

definition moveUFaceStickers :: "bool \<Rightarrow> cube \<Rightarrow> result" where
  "moveUFaceStickers clockwise c = Completed c"

definition moveDFaceStickers :: "bool \<Rightarrow> cube \<Rightarrow> result" where
  "moveDFaceStickers clockwise c = Completed c"

definition moveLFaceStickers :: "bool \<Rightarrow> cube \<Rightarrow> result" where
  "moveLFaceStickers clockwise c = Completed c"

definition moveRFaceStickers :: "bool \<Rightarrow> cube \<Rightarrow> result" where
  "moveRFaceStickers clockwise c = Completed c"

subsection \<open>Move dispatch\<close>

abbreviation apostrophe :: char where
  "apostrophe \<equiv> CHR 0x27"

text \<open>
  \<open>move(moveName)\<close>: \<open>isPrime = moveName.includes("'")\<close>, \<open>face = moveName.replace("'", "")\<close>
  (the first apostrophe only), then the \<open>switch\<close> over the six face letters, which has
  no default branch.
\<close>

definition move :: "string \<Rightarrow> cube \<Rightarrow> result" where
  "move moveName c =
     (let isPrime = (apostrophe \<in> set moveName);
          face = remove1 apostrophe moveName
      in if face = ''F'' then
           (if isPrime then moveFFaceStickers False (rotateFaceCounterClockwise F c)
            else moveFFaceStickers True (rotateFaceClockwise F c))
         else if face = ''B'' then
           (if isPrime then moveBFaceStickers False (rotateFaceCounterClockwise B c)
            else moveBFaceStickers True (rotateFaceClockwise B c))
         else if face = ''U'' then
           (if isPrime then moveUFaceStickers False (rotateFaceCounterClockwise U c)
            else moveUFaceStickers True (rotateFaceClockwise U c))
         else if face = ''D'' then
           (if isPrime then moveDFaceStickers False (rotateFaceCounterClockwise D c)
            else moveDFaceStickers True (rotateFaceClockwise D c))
         else if face = ''L'' then
           (if isPrime then moveLFaceStickers False (rotateFaceCounterClockwise L c)
            else moveLFaceStickers True (rotateFaceClockwise L c))
         else if face = ''R'' then
           (if isPrime then moveRFaceStickers False (rotateFaceCounterClockwise R c)
            else moveRFaceStickers True (rotateFaceClockwise R c))
         else Completed c)"

subsection \<open>Observations on results and cubes\<close>

text \<open>The cube as a call left it, and whether the call threw.\<close>

fun state_of :: "result \<Rightarrow> cube" where
  "state_of (Completed c) = c"
| "state_of (Threw e c) = c"

fun threw :: "result \<Rightarrow> bool" where
  "threw (Completed c) = False"
| "threw (Threw e c) = True"

text \<open>The key of a face in \<open>this.faces\<close>, which is also its move letter.\<close>

definition faceName :: "face \<Rightarrow> string" where
  "faceName face = (case face of U \<Rightarrow> ''U'' | D \<Rightarrow> ''D'' | L \<Rightarrow> ''L''
     | R \<Rightarrow> ''R'' | F \<Rightarrow> ''F'' | B \<Rightarrow> ''B'')"

text \<open>How many stickers of the whole cube carry a colour code.\<close>

definition colorCount :: "cube \<Rightarrow> string \<Rightarrow> nat" where
  "colorCount c col =
     sum_list (map (\<lambda>face. count_list (concat (faces c face)) (Str col)) faceKeys)"

definition colors :: "string list" where
  "colors = [''W'', ''Y'', ''G'', ''B'', ''R'', ''O'']"

subsection \<open>Move strings that name no layer\<close>

text \<open>
  The letters with which the move strings of the repository begin: the six face letters
  of \<open>Cube.move\<close>, the lower-case slice letters of \<open>Scrambler.getMovesForSize\<close>, and the
  middle-layer letters M, E, S of the test scenarios. A move string names no layer when
  its face part (the string without its first apostrophe, as \<open>Cube.move\<close> computes it) is
  empty or begins with none of these letters. Strings such as \<open>F2\<close>, \<open>f\<close> or \<open>Rw\<close> begin
  with one of them and do name a layer.
\<close>

definition layerLetters :: string where
  "layerLetters = ''FBUDLRfbudlrMES''"

definition namesNoLayer :: "string \<Rightarrow> bool" where
  "namesNoLayer moveName =
     (case remove1 apostrophe moveName of
        [] \<Rightarrow> True
      | letter # modifiers \<Rightarrow> letter \<notin> set layerLetters)"

subsection \<open>Auxiliary definitions\<close>

text \<open>
  Names for parts of the methods above, used in the proofs: the cube with one face
  replaced, a function applied to the cube a result carries, the rotation of a grid as
  the two rotation methods compute it, and the rotation \<open>move\<close> makes for a direction.
\<close>

definition withFace :: "face \<Rightarrow> grid \<Rightarrow> cube \<Rightarrow> cube" where
  "withFace X g c = c\<lparr>faces := (faces c)(X := g)\<rparr>"

fun onState :: "(cube \<Rightarrow> cube) \<Rightarrow> result \<Rightarrow> result" where
  "onState f (Completed c) = Completed (f c)"
| "onState f (Threw e c) = Threw e (f c)"

definition rotatedClockwise :: "nat \<Rightarrow> grid \<Rightarrow> grid" where
  "rotatedClockwise n g =
     fold (\<lambda>i m. fold (\<lambda>j m. set2 m j (n - 1 - i) (g ! i ! j)) [0..<n] m) [0..<n] (emptyMatrix n)"

definition rotatedCounterClockwise :: "nat \<Rightarrow> grid \<Rightarrow> grid" where
  "rotatedCounterClockwise n g =
     fold (\<lambda>i m. fold (\<lambda>j m. set2 m (n - 1 - j) i (g ! i ! j)) [0..<n] m) [0..<n] (emptyMatrix n)"

definition turnGrid :: "bool \<Rightarrow> face \<Rightarrow> cube \<Rightarrow> cube" where
  "turnGrid prime X c = (if prime then rotateFaceCounterClockwise X c else rotateFaceClockwise X c)"

section \<open>The scrambler (src/logic/Scrambler.js)\<close>

text \<open>The object: \<open>this.cubeSize\<close> and \<open>this.moves\<close>.\<close>

record scrambler =
  cubeSize :: nat
  moves :: "string list"

definition getMovesForSize :: "nat \<Rightarrow> string list" where
  "getMovesForSize n =
     (if n = 2 then
        [''F'', ''F'' @ [apostrophe], ''R'', ''R'' @ [apostrophe], ''U'', ''U'' @ [apostrophe]]
      else if n = 3 then
        [''F'', ''F'' @ [apostrophe], ''R'', ''R'' @ [apostrophe], ''U'', ''U'' @ [apostrophe],
         ''B'', ''B'' @ [apostrophe], ''L'', ''L'' @ [apostrophe], ''D'', ''D'' @ [apostrophe]]
      else
        [''F'', ''F'' @ [apostrophe], ''R'', ''R'' @ [apostrophe], ''U'', ''U'' @ [apostrophe],
         ''B'', ''B'' @ [apostrophe], ''L'', ''L'' @ [apostrophe], ''D'', ''D'' @ [apostrophe],
         ''f'', ''f'' @ [apostrophe], ''r'', ''r'' @ [apostrophe], ''u'', ''u'' @ [apostrophe],
         ''b'', ''b'' @ [apostrophe], ''l'', ''l'' @ [apostrophe], ''d'', ''d'' @ [apostrophe]])"

text \<open>\<open>new Scrambler(cubeSize)\<close>.\<close>

definition Scrambler :: "nat \<Rightarrow> scrambler" where
  "Scrambler n = \<lparr>cubeSize = n, moves = getMovesForSize n\<rparr>"

text \<open>\<open>String.prototype.toLowerCase\<close> on the letters A to Z; other characters stay.\<close>

definition toLowerCase :: "string \<Rightarrow> string" where
  "toLowerCase s =
     map (\<lambda>ch. case map_of (zip ''ABCDEFGHIJKLMNOPQRSTUVWXYZ'' ''abcdefghijklmnopqrstuvwxyz'') ch
               of Some l \<Rightarrow> l | None \<Rightarrow> ch) s"

text \<open>
  \<open>getMoveAxis\<close>: \<open>face = move.replace(/'/, '').toLowerCase()\<close>, then the \<open>switch\<close> with
  its default branch returning \<open>face\<close>.
\<close>

definition getMoveAxis :: "string \<Rightarrow> string" where
  "getMoveAxis mv =
     (let face = toLowerCase (remove1 apostrophe mv)
      in if face = ''f'' \<or> face = ''b'' then ''x''
         else if face = ''r'' \<or> face = ''l'' then ''y''
         else if face = ''u'' \<or> face = ''d'' then ''z''
         else face)"

text \<open>
  \<open>Math.floor(Math.random() * n)\<close>. The values of \<open>Math.random()\<close> are given by a
  sequence \<open>random\<close>, its \<open>k\<close>-th call returning \<open>random k\<close>; \<open>Math.random\<close> returns
  numbers \<open>u\<close> with \<open>0 \<le> u < 1\<close>, which the theorems take as their hypothesis on the
  sequence. The product is taken exactly.
\<close>

definition randomIndex :: "real \<Rightarrow> nat \<Rightarrow> nat" where
  "randomIndex u n = nat \<lfloor>u * real n\<rfloor>"

text \<open>
  \<open>getRandomMove(lastMove, lastAxis)\<close>: the result is \<open>null\<close> (here \<open>None\<close>) when the
  filter leaves no move; otherwise one call of \<open>Math.random\<close> picks the move. The
  second component is the number of calls of \<open>Math.random\<close> made so far.
\<close>

definition getRandomMove ::
  "scrambler \<Rightarrow> (nat \<Rightarrow> real) \<Rightarrow> nat \<Rightarrow> string \<Rightarrow> string \<Rightarrow> string option \<times> nat" where
  "getRandomMove s random k lastMove lastAxis =
     (let availableMoves =
            filter (\<lambda>mv. if mv = lastMove then False
                            else if getMoveAxis mv = lastAxis then False
                            else True) (moves s)
      in if length availableMoves = 0 then (None, k)
         else (Some (availableMoves ! randomIndex (random k) (length availableMoves)), Suc k))"

text \<open>
  The loop of \<open>generateScramble\<close>: \<open>while (scramble.length < length)\<close>, whose body pushes
  the move only \<open>if (move)\<close>, that is when it is neither \<open>null\<close> nor the empty string.
  Nothing in the loop bounds the number of iterations, so the loop is a partial function:
  \<open>None\<close> is the loop that never ends.
\<close>

partial_function (option) scrambleLoop ::
  "scrambler \<Rightarrow> (nat \<Rightarrow> real) \<Rightarrow> nat \<Rightarrow> nat \<Rightarrow> string list \<Rightarrow> string \<Rightarrow> string
     \<Rightarrow> string list option" where
  "scrambleLoop s random k len scramble lastMove lastAxis =
     (if length scramble < len then
        (case getRandomMove s random k lastMove lastAxis of
           (Some mv, k') \<Rightarrow>
             if mv \<noteq> [] then
               scrambleLoop s random k' len (scramble @ [mv]) mv (getMoveAxis mv)
             else scrambleLoop s random k' len scramble lastMove lastAxis
         | (None, k') \<Rightarrow> scrambleLoop s random k' len scramble lastMove lastAxis)
      else Some scramble)"

definition generateScramble :: "scrambler \<Rightarrow> (nat \<Rightarrow> real) \<Rightarrow> nat \<Rightarrow> string list option" where
  "generateScramble s random len = scrambleLoop s random 0 len [] [] []"

text \<open>
  \<open>applyScramble(cube, scramble)\<close>: \<open>for (const move of scramble) cube.move(move)\<close>.
  A throw ends the loop, the cube staying as the throwing call left it.
\<close>

fun applyScramble :: "string list \<Rightarrow> cube \<Rightarrow> result" where
  "applyScramble [] c = Completed c"
| "applyScramble (m # ms) c =
     (case move m c of Completed c' \<Rightarrow> applyScramble ms c' | Threw e c' \<Rightarrow> Threw e c')"

text \<open>
  The face a move string names, as \<open>Cube.move\<close> reads it: the string without its first
  apostrophe.
\<close>

definition moveFace :: "string \<Rightarrow> string" where
  "moveFace mv = remove1 apostrophe mv"

section \<open>JSON import (component JsonImport)\<close>

text \<open>
  The values \<open>JSON.parse\<close> returns. An object is the list of its own properties, each key
  once.
\<close>

datatype json = JNull | JBool bool | JNum real | JStr string
  | JArr "json list" | JObj "(string \<times> json) list"

text \<open>\<open>!v\<close> is \<open>\<not> truthy v\<close>; \<open>typeof v === 'object'\<close> holds of \<open>null\<close>, arrays and objects.\<close>

fun truthy :: "json \<Rightarrow> bool" where
  "truthy JNull = False"
| "truthy (JBool b) = b"
| "truthy (JNum x) = (x \<noteq> 0)"
| "truthy (JStr s) = (s \<noteq> [])"
| "truthy (JArr xs) = True"
| "truthy (JObj kvs) = True"

fun typeofObject :: "json \<Rightarrow> bool" where
  "typeofObject JNull = True"
| "typeofObject (JArr xs) = True"
| "typeofObject (JObj kvs) = True"
| "typeofObject v = False"

text \<open>
  The property reads \<open>data.faces\<close> and \<open>data.faces[face]\<close>, with \<open>None\<close> for
  \<open>undefined\<close>: the keys read (\<open>faces\<close> and the six face letters) are properties of no
  array, string, number or boolean and of no prototype. Reading a property of \<open>null\<close>
  throws; \<open>validateCubeData\<close> has that case.
\<close>

fun getProperty :: "json \<Rightarrow> string \<Rightarrow> json option" where
  "getProperty (JObj kvs) key = map_of kvs key"
| "getProperty v key = None"

definition requiredFaces :: "string list" where
  "requiredFaces = [''U'', ''D'', ''L'', ''R'', ''F'', ''B'']"

definition validColors :: "string list" where
  "validColors = [''W'', ''Y'', ''G'', ''B'', ''R'', ''O'']"

text \<open>
  \<open>validateCubeData\<close>, inside out: \<open>validColors.includes(color)\<close>; the check of a row;
  the checks of \<open>data.faces[face]\<close>. Each loop returns false at the first failure and
  has no other effect.
\<close>

definition validColor :: "json \<Rightarrow> bool" where
  "validColor color = (case color of JStr s \<Rightarrow> s \<in> set validColors | _ \<Rightarrow> False)"

definition validRow :: "nat \<Rightarrow> json \<Rightarrow> bool" where
  "validRow cubeSize' row =
     (case row of
        JArr cs \<Rightarrow> if length cs \<noteq> cubeSize' then False else list_all validColor cs
      | _ \<Rightarrow> False)"

definition validFace :: "nat \<Rightarrow> json option \<Rightarrow> bool" where
  "validFace cubeSize' v =
     (case v of
        Some (JArr rows) \<Rightarrow>
          if length rows \<noteq> cubeSize' then False else list_all (validRow cubeSize') rows
      | _ \<Rightarrow> False)"

definition validateCubeData :: "nat \<Rightarrow> json \<Rightarrow> error + bool" where
  "validateCubeData cubeSize' data =
     (if data = JNull then Inl TypeError
      else case getProperty data ''faces'' of
             None \<Rightarrow> Inr False
           | Some fs \<Rightarrow>
               if \<not> truthy fs \<or> \<not> typeofObject fs then Inr False
               else Inr (list_all (\<lambda>face. validFace cubeSize' (getProperty fs face))
                           requiredFaces))"

text \<open>
  The component's state: \<open>jsonInput\<close>, \<open>isExpanded\<close> and \<open>error\<close>. The prop
  \<open>cubeSize\<close> is the argument \<open>cubeSize'\<close> of the functions.
\<close>

record importState =
  jsonInput :: string
  isExpanded :: bool
  errorMessage :: string

text \<open>
  \<open>handleImport\<close>. \<open>JSON.parse\<close> is a parameter, \<open>None\<close> being its SyntaxError; so is the
  callback \<open>onImport\<close>, of which the component sees only whether it throws. The \<open>catch\<close>
  takes every throw of the \<open>try\<close> block to the same message. The result is the state
  after the call and the list of arguments \<open>onImport\<close> has been invoked with.
\<close>

definition handleImport ::
  "(string \<Rightarrow> json option) \<Rightarrow> (json \<Rightarrow> bool) \<Rightarrow> nat \<Rightarrow> importState
     \<Rightarrow> importState \<times> json list" where
  "handleImport parse onImportThrows cubeSize' st =
     (let st = st\<lparr>errorMessage := []\<rparr>;
          failed = st\<lparr>errorMessage := ''Invalid JSON format. Please check your input.''\<rparr>
      in case parse (jsonInput st) of
           None \<Rightarrow> (failed, [])
         | Some cubeData \<Rightarrow>
             (case validateCubeData cubeSize' cubeData of
                Inl e \<Rightarrow> (failed, [])
              | Inr ok \<Rightarrow>
                  if \<not> ok then
                    (st\<lparr>errorMessage :=
                         ''Invalid cube data format. Please check the JSON structure.''\<rparr>, [])
                  else if onImportThrows cubeData then (failed, [cubeData])
                  else (st\<lparr>jsonInput := [], isExpanded := False\<rparr>, [cubeData])))"

text \<open>
  The configuration the specification asks for, in its words: all six faces U, D, L, R,
  F, B are present as \<open>size\<close> by \<open>size\<close> arrays that contain only the six colour codes.
\<close>

definition conforms :: "nat \<Rightarrow> json \<Rightarrow> bool" where
  "conforms cubeSize' data =
     (case getProperty data ''faces'' of
        None \<Rightarrow> False
      | Some fs \<Rightarrow>
          (\<forall>face \<in> set requiredFaces.
             case getProperty fs face of
               Some (JArr rows) \<Rightarrow>
                 length rows = cubeSize' \<and>
                 (\<forall>row \<in> set rows.
                    case row of
                      JArr cs \<Rightarrow> length cs = cubeSize' \<and> set cs \<subseteq> JStr ` set validColors
                    | _ \<Rightarrow> False)
             | _ \<Rightarrow> False))"

section \<open>Inputs used below\<close>

text \<open>
  Two cubes: the 4x4 cube after \<open>new Cube(4).move('F')\<close>, and a 2x2 cube on which two
  stickers of the solved cube were recoloured by direct assignment (as the colouring
  interface does), so that its B face is not uniform.
\<close>

definition cube4_after_F :: cube where
  "cube4_after_F = state_of (move ''F'' (Cube 4 False))"

definition cube2_recolored :: cube where
  "cube2_recolored = assign (assign (Cube 2 False) B 0 0 (Str ''Y'')) D 0 0 (Str ''O'')"

text \<open>A sequence of values for \<open>Math.random\<close>: 0, 1/7, ..., 6/7, 0, 1/7, ...\<close>

definition sampleRandom :: "nat \<Rightarrow> real" where
  "sampleRandom k = real (k mod 7) / 7"

text \<open>The parsed configuration of the solved 2x2 cube, and a state of the component.\<close>

definition solved2Face :: "string \<Rightarrow> json" where
  "solved2Face col = JArr [JArr [JStr col, JStr col], JArr [JStr col, JStr col]]"

definition solved2Json :: json where
  "solved2Json =
     JObj [(''size'', JNum 2),
           (''faces'', JObj [(''U'', solved2Face ''W''), (''D'', solved2Face ''Y''),
                             (''L'', solved2Face ''G''), (''R'', solved2Face ''B''),
                             (''F'', solved2Face ''R''), (''B'', solved2Face ''O'')])]"

definition pastedState :: importState where
  "pastedState = \<lparr>jsonInput = ''pasted text'', isExpanded = True, errorMessage = []\<rparr>"

section \<open>Properties of the cube\<close>

lemmas cube_defs = move_def moveFFaceStickers_def rotateFaceClockwise_def
  rotateFaceCounterClockwise_def Cube_def initializeFaces_def faceKeys_def Let_def
  emptyMatrix_def assign_def set2_def defaultColors_def moveBFaceStickers_def
  moveUFaceStickers_def moveDFaceStickers_def moveLFaceStickers_def moveRFaceStickers_def

lemma faces_blank: "faces (Cube n True) face = replicate n (replicate n (Str ''W''))"
  by (cases face) (simp_all add: Cube_def initializeFaces_def faceKeys_def)

lemma faces_solved:
  "faces (Cube n False) face = replicate n (replicate n (Str (defaultColors face)))"
  by (cases face) (simp_all add: Cube_def initializeFaces_def faceKeys_def)

lemma size_Cube: "size_c (Cube n b) = n"
  by (simp add: Cube_def)

lemma wf_Cube: "wf (Cube n b)"
  by (cases b) (simp_all add: wf_def wf_grid_def faceKeys_def faces_blank faces_solved
      list_all_iff size_Cube)

lemma isSolved_from_uniform:
  assumes "0 < size_c c"
    and "\<And>face. faces c face = replicate (size_c c) (replicate (size_c c) v)"
  shows "isSolved_from c fs = Inr True"
proof (induction fs)
  case Nil
  show ?case by simp
next
  case (Cons face rest)
  have ne: "faces c face \<noteq> []"
    using assms by simp
  have first: "faces c face ! 0 \<noteq> []" "faces c face ! 0 ! 0 = v"
    using assms by simp_all
  have all: "list_all (\<lambda>i. list_all (\<lambda>j. faces c face ! i ! j = v) [0..<size_c c])
               [0..<size_c c]"
    using assms(2) by (simp add: list_all_iff)
  show ?case
    using ne first all Cons.IH by (simp add: Let_def)
qed

lemma isSolved_size0: "isSolved (Cube 0 b) = Inl TypeError"
  by (cases b) (simp_all add: isSolved_def faceKeys_def Cube_def initializeFaces_def)

text \<open>
  Claim C10. A blank cube \<open>new Cube(size, true)\<close> has every sticker of all six faces
  equal to \<open>'W'\<close>, and \<open>isSolved()\<close> returns true on it. The sizes are the cube
  sizes, \<open>size \<ge> 1\<close> here; at size 0 the faces have no row 0 and \<open>isSolved\<close> throws
  (lemma \<open>isSolved_size0\<close>).
\<close>

theorem blank_cube_white_and_solved:
  assumes "0 < n"
  shows "(\<forall>face. faces (Cube n True) face = replicate n (replicate n (Str ''W'')))
         \<and> isSolved (Cube n True) = Inr True"
proof
  show "\<forall>face. faces (Cube n True) face = replicate n (replicate n (Str ''W''))"
    by (simp add: faces_blank)
next
  have "size_c (Cube n True) = n"
    by (simp add: size_Cube)
  then show "isSolved (Cube n True) = Inr True"
    unfolding isSolved_def
    using assms by (intro isSolved_from_uniform [where v = "Str ''W''"]) (simp_all add: faces_blank)
qed

text \<open>
  Claim C10 at size 3.
\<close>

theorem blank_cube_white_and_solved_witness:
  "(0::nat) < 3
   \<and> (\<forall>face. faces (Cube 3 True) face = replicate 3 (replicate 3 (Str ''W'')))
   \<and> isSolved (Cube 3 True) = Inr True"
  using blank_cube_white_and_solved [of 3] by simp

lemma rotate_frame:
  "size_c (rotateFaceClockwise X c) = size_c c"
  "size_c (rotateFaceCounterClockwise X c) = size_c c"
  "Y \<noteq> X \<Longrightarrow> faces (rotateFaceClockwise X c) Y = faces c Y"
  "Y \<noteq> X \<Longrightarrow> faces (rotateFaceCounterClockwise X c) Y = faces c Y"
  by (simp_all add: rotateFaceClockwise_def rotateFaceCounterClockwise_def Let_def)

lemma move_stub_faces:
  assumes "X \<noteq> F"
  shows "move (faceName X) c = Completed (rotateFaceClockwise X c)"
    and "move (faceName X @ [apostrophe]) c = Completed (rotateFaceCounterClockwise X c)"
  using assms
  by (cases X; simp add: move_def faceName_def moveBFaceStickers_def moveUFaceStickers_def
      moveDFaceStickers_def moveLFaceStickers_def moveRFaceStickers_def)+

lemma move_half_turn_suffix: "move (faceName X @ ''2'') c = Completed c"
  by (cases X) (simp_all add: move_def faceName_def)

text \<open>
  Claim C5. For a face \<open>X\<close> other than F and each direction (the letter alone, with an
  apostrophe, or with the suffix 2, which \<open>move\<close> does not know and ignores), \<open>move\<close>
  completes, and every face other than \<open>X\<close> has the grid it had before; the size is
  unchanged too. The boundary methods of B, U, D, L and R have empty bodies, so the
  only write is the rotation of face \<open>X\<close> itself.
\<close>

theorem stub_faces_change_own_grid_only:
  assumes "wf c" and "X \<noteq> F" and "Y \<noteq> X"
    and "dir = [] \<or> dir = [apostrophe] \<or> dir = ''2''"
  shows "\<exists>c'. move (faceName X @ dir) c = Completed c'
           \<and> faces c' Y = faces c Y \<and> size_c c' = size_c c"
proof -
  consider "dir = []" | "dir = [apostrophe]" | "dir = ''2''"
    using assms(4) by blast
  then show ?thesis
  proof cases
    case 1
    then show ?thesis
      using move_stub_faces(1) [OF assms(2), of c] rotate_frame(1,3) assms(3)
      by simp
  next
    case 2
    then show ?thesis
      using move_stub_faces(2) [OF assms(2), of c] rotate_frame(2,4) assms(3)
      by simp
  next
    case 3
    then show ?thesis
      using move_half_turn_suffix [of X c] by simp
  qed
qed

text \<open>
  Claim C5 on the solved 3x3 cube: \<open>U'\<close> leaves the R face as it was.
\<close>

theorem stub_faces_change_own_grid_only_witness:
  "wf (Cube 3 False) \<and> U \<noteq> F \<and> R \<noteq> U
   \<and> ([apostrophe] = [] \<or> [apostrophe] = [apostrophe] \<or> [apostrophe] = ''2'')
   \<and> (\<exists>c'. move (faceName U @ [apostrophe]) (Cube 3 False) = Completed c'
           \<and> faces c' R = faces (Cube 3 False) R \<and> size_c c' = size_c (Cube 3 False))"
  using stub_faces_change_own_grid_only [of "Cube 3 False" U R "[apostrophe]"]
  by (simp add: wf_Cube)

text \<open>
  Claim C7, as the code has it, for the move strings that name no layer: the face part
  is then none of F, B, U, D, L, R, the \<open>switch\<close> matches no case, and \<open>move\<close> completes
  without an error, the cube unchanged. Nothing is said here about the strings that
  begin with a layer letter and carry a modifier or a case \<open>move\<close> does not know
  (\<open>F2\<close>, \<open>f\<close>, \<open>Rw\<close>, \<open>M\<close>).
\<close>

theorem unknown_face_ignored:
  assumes "namesNoLayer moveName"
  shows "move moveName c = Completed c"
proof (cases "remove1 apostrophe moveName")
  case Nil
  then show ?thesis
    by (simp add: move_def Let_def)
next
  case (Cons letter modifiers)
  with assms have "letter \<notin> set layerLetters"
    by (simp add: namesNoLayer_def)
  then have "letter \<noteq> CHR ''F''" "letter \<noteq> CHR ''B''" "letter \<noteq> CHR ''U''"
    "letter \<noteq> CHR ''D''" "letter \<noteq> CHR ''L''" "letter \<noteq> CHR ''R''"
    by (auto simp: layerLetters_def)
  with Cons show ?thesis
    by (simp add: move_def Let_def)
qed

text \<open>
  Claim C7 as amended, at the move string \<open>Q'\<close> on the solved 3x3 cube.
\<close>

theorem unknown_face_ignored_witness:
  "namesNoLayer (''Q'' @ [apostrophe])
   \<and> move (''Q'' @ [apostrophe]) (Cube 3 False) = Completed (Cube 3 False)"
proof -
  have "namesNoLayer (''Q'' @ [apostrophe])"
    by (simp add: namesNoLayer_def layerLetters_def)
  with unknown_face_ignored [of "''Q'' @ [apostrophe]" "Cube 3 False"] show ?thesis
    by simp
qed

text \<open>
  Claim C7 as stated fails: \<open>move('X')\<close> on the solved 3x3 cube reports no error; it
  completes and leaves the cube as it was.
\<close>

theorem unknown_face_no_error:
  "remove1 apostrophe ''X'' \<notin> {''F'', ''B'', ''U'', ''D'', ''L'', ''R''}
   \<and> \<not> threw (move ''X'' (Cube 3 False))
   \<and> move ''X'' (Cube 3 False) = Completed (Cube 3 False)"
  by (simp add: move_def)

subsection \<open>Opposite faces\<close>

text \<open>
  The moves of two opposite faces commute on every well-formed cube of size 3 or more:
  U and D, L and R rotate their own grid only, and the F move neither reads nor writes
  the B grid. The F move has to complete for that, which it does from size 3 on.
\<close>

lemma fold_commute:
  assumes "\<And>i c. step i (f c) = f (step i c)"
  shows "fold step xs (f c) = f (fold step xs c)"
  using assms by (induction xs arbitrary: c) simp_all

lemma assign_withFace:
  assumes "X \<noteq> Y"
  shows "assign (withFace X g c) Y i j v = withFace X g (assign c Y i j v)"
  using assms by (simp add: assign_def withFace_def fun_upd_twist)

lemma faces_withFace: "X \<noteq> Y \<Longrightarrow> faces (withFace X g c) Y = faces c Y"
  and size_withFace: "size_c (withFace X g c) = size_c c"
  by (simp_all add: withFace_def)

lemma moveFFaceStickers_withFace_B:
  "moveFFaceStickers cw (withFace B g c) = onState (withFace B g) (moveFFaceStickers cw c)"
  by (simp add: moveFFaceStickers_def Let_def faces_withFace size_withFace
      fold_commute [where f = "withFace B g"] assign_withFace)

lemma fold_preserves:
  assumes "\<And>i c. h (step i c) = h c"
  shows "h (fold step xs c) = h c"
  using assms by (induction xs arbitrary: c) simp_all

lemma assign_frame:
  "size_c (assign c Y i j v) = size_c c"
  "X \<noteq> Y \<Longrightarrow> faces (assign c Y i j v) X = faces c X"
  by (simp_all add: assign_def)

lemma moveFFaceStickers_frame:
  "size_c (state_of (moveFFaceStickers cw c)) = size_c c"
  "faces (state_of (moveFFaceStickers cw c)) B = faces c B"
  "faces (state_of (moveFFaceStickers cw c)) F = faces c F"
  by (simp_all add: moveFFaceStickers_def Let_def assign_frame
      fold_preserves [where h = size_c] fold_preserves [where h = "\<lambda>c. faces c B"]
      fold_preserves [where h = "\<lambda>c. faces c F"])

lemma rotate_as_withFace:
  "rotateFaceClockwise X c = withFace X (faces (rotateFaceClockwise X c) X) c"
  "rotateFaceCounterClockwise X c = withFace X (faces (rotateFaceCounterClockwise X c) X) c"
  by (simp_all add: rotateFaceClockwise_def rotateFaceCounterClockwise_def withFace_def Let_def)

lemma rotate_withFace:
  assumes "X \<noteq> Y"
  shows "rotateFaceClockwise X (withFace Y g c) = withFace Y g (rotateFaceClockwise X c)"
    and "rotateFaceCounterClockwise X (withFace Y g c)
           = withFace Y g (rotateFaceCounterClockwise X c)"
  using assms
  by (simp_all add: rotateFaceClockwise_def rotateFaceCounterClockwise_def withFace_def Let_def
      fun_upd_twist)

lemma rotated_grid_depends:
  assumes "size_c c' = size_c c" and "faces c' X = faces c X"
  shows "faces (rotateFaceClockwise X c') X = faces (rotateFaceClockwise X c) X"
    and "faces (rotateFaceCounterClockwise X c') X = faces (rotateFaceCounterClockwise X c) X"
  using assms by (simp_all add: rotateFaceClockwise_def rotateFaceCounterClockwise_def Let_def)

lemma turnGrid_commute:
  assumes "X \<noteq> Y"
  shows "turnGrid p X (turnGrid q Y c) = turnGrid q Y (turnGrid p X c)"
proof -
  have a: "turnGrid q Y c = withFace Y (faces (turnGrid q Y c) Y) c" for c
    using rotate_as_withFace [of Y c] by (simp add: turnGrid_def)
  have b: "turnGrid p X (withFace Y g c) = withFace Y g (turnGrid p X c)" for g c
    using rotate_withFace [OF assms] by (simp add: turnGrid_def)
  have c: "faces (turnGrid q Y (turnGrid p X c)) Y = faces (turnGrid q Y c) Y"
    using rotated_grid_depends [of "turnGrid p X c" c Y] rotate_frame assms
    by (simp add: turnGrid_def)
  have "turnGrid p X (turnGrid q Y c) = withFace Y (faces (turnGrid q Y c) Y) (turnGrid p X c)"
    using a [of c] b by metis
  also have "\<dots> = turnGrid q Y (turnGrid p X c)"
    using a [of "turnGrid p X c"] c by simp
  finally show ?thesis .
qed

lemma move_as_turn:
  assumes "X \<noteq> F"
  shows "move (faceName X) c = Completed (turnGrid False X c)"
    and "move (faceName X @ [apostrophe]) c = Completed (turnGrid True X c)"
  using move_stub_faces [OF assms] by (simp_all add: turnGrid_def)

lemma move_F_as_turn:
  "move ''F'' c = moveFFaceStickers True (turnGrid False F c)"
  "move (''F'' @ [apostrophe]) c = moveFFaceStickers False (turnGrid True F c)"
  by (simp_all add: move_def turnGrid_def)

lemma stub_faces_commute:
  assumes "X \<noteq> F" and "Y \<noteq> F" and "X \<noteq> Y"
    and "d1 = [] \<or> d1 = [apostrophe]" and "d2 = [] \<or> d2 = [apostrophe]"
  shows "applyScramble [faceName X @ d1, faceName Y @ d2] c
         = applyScramble [faceName Y @ d2, faceName X @ d1] c"
  using assms(4,5) move_as_turn [OF assms(1)] move_as_turn [OF assms(2)]
    turnGrid_commute [OF assms(3)]
  by auto

lemma F_turn_B_commute:
  assumes "\<not> threw (moveFFaceStickers cw (turnGrid p F c))"
  shows "(case moveFFaceStickers cw (turnGrid p F c) of
            Completed c' \<Rightarrow> Completed (turnGrid q B c') | Threw e c' \<Rightarrow> Threw e c')
         = moveFFaceStickers cw (turnGrid p F (turnGrid q B c))"
proof -
  define g where "g = faces (turnGrid q B c) B"
  have qB: "turnGrid q B c = withFace B g c"
    using rotate_as_withFace [of B c] by (simp add: turnGrid_def g_def)
  obtain c1 where c1: "moveFFaceStickers cw (turnGrid p F c) = Completed c1"
    using assms by (cases "moveFFaceStickers cw (turnGrid p F c)") simp_all
  have frame: "size_c c1 = size_c c" "faces c1 B = faces c B"
    using moveFFaceStickers_frame(1,2) [of cw "turnGrid p F c"] c1 rotate_frame
    by (simp_all add: turnGrid_def)
  have "turnGrid q B c1 = withFace B (faces (turnGrid q B c1) B) c1"
    using rotate_as_withFace [of B c1] by (simp add: turnGrid_def)
  moreover have "faces (turnGrid q B c1) B = g"
    using rotated_grid_depends [OF frame] by (simp add: turnGrid_def g_def)
  ultimately have lhs: "turnGrid q B c1 = withFace B g c1"
    by simp
  have "turnGrid p F (withFace B g c) = withFace B g (turnGrid p F c)"
    using rotate_withFace [of F B g c] by (simp add: turnGrid_def)
  then have "moveFFaceStickers cw (turnGrid p F (turnGrid q B c))
             = onState (withFace B g) (moveFFaceStickers cw (turnGrid p F c))"
    by (simp add: qB moveFFaceStickers_withFace_B)
  with c1 lhs show ?thesis
    by simp
qed

lemma F_move_completes:
  assumes "wf c" and "3 \<le> size_c c"
  shows "\<not> threw (moveFFaceStickers cw (turnGrid p F c))"
proof -
  have "length (faces c U) = size_c c"
    using assms(1) by (simp add: wf_def wf_grid_def faceKeys_def)
  then have "length (faces (turnGrid p F c) U) = size_c c"
    "size_c (turnGrid p F c) = size_c c"
    by (simp_all add: turnGrid_def rotate_frame)
  then show ?thesis
    using assms(2) by (simp add: moveFFaceStickers_def Let_def)
qed

lemma applyScramble_two:
  "applyScramble [m1, m2] c
   = (case move m1 c of Completed c' \<Rightarrow> move m2 c' | Threw e c' \<Rightarrow> Threw e c')"
  by (simp split: result.splits)

lemma F_B_commute_from_size3:
  assumes "wf c" and "3 \<le> size_c c"
    and "d1 = [] \<or> d1 = [apostrophe]" and "d2 = [] \<or> d2 = [apostrophe]"
  shows "applyScramble [''F'' @ d1, ''B'' @ d2] c = applyScramble [''B'' @ d2, ''F'' @ d1] c"
proof -
  have B: "move (''B'' @ d2) c' = Completed (turnGrid (d2 \<noteq> []) B c')" for c'
    using assms(4) move_as_turn [of B c'] by (auto simp: faceName_def)
  obtain cw p where F: "\<And>c'. move (''F'' @ d1) c' = moveFFaceStickers cw (turnGrid p F c')"
    using assms(3) move_F_as_turn by (elim disjE) auto
  have "\<not> threw (moveFFaceStickers cw (turnGrid p F c))"
    using assms(1,2) by (rule F_move_completes)
  from F_turn_B_commute [OF this, of "d2 \<noteq> []"] show ?thesis
    by (simp only: applyScramble_two B F result.case)
qed

subsection \<open>The rotation of a grid\<close>

text \<open>
  What the two nested loops of the rotation methods compute, entry by entry:
  \<open>new[r][c] = old[size - 1 - c][r]\<close> clockwise and \<open>new[r][c] = old[c][size - 1 - r]\<close>
  counter-clockwise. Hence four clockwise rotations, and a rotation followed by the
  opposite one, give the grid back; so do the moves of B, U, D, L and R, at every size.
\<close>

lemma rotate_eq:
  "rotateFaceClockwise X c = withFace X (rotatedClockwise (size_c c) (faces c X)) c"
  "rotateFaceCounterClockwise X c = withFace X (rotatedCounterClockwise (size_c c) (faces c X)) c"
  by (simp_all add: rotateFaceClockwise_def rotateFaceCounterClockwise_def withFace_def Let_def
      rotatedClockwise_def rotatedCounterClockwise_def)

lemma wf_grid_nth:
  "wf_grid n g \<longleftrightarrow> length g = n \<and> (\<forall>r<n. length (g ! r) = n)"
  by (auto simp: wf_grid_def list_all_iff all_set_conv_all_nth)

lemma wf_grid_set2:
  assumes "wf_grid n m"
  shows "wf_grid n (set2 m r c v)"
proof -
  have "length (m[r := (m ! r)[c := v]] ! r') = n" if "r' < n" for r'
    using assms that by (cases "r' = r") (simp_all add: wf_grid_nth)
  then show ?thesis
    using assms by (simp add: wf_grid_nth set2_def)
qed

lemma nth_set2:
  assumes "wf_grid n m" and "r < n" and "c < n" and "r' < n" and "c' < n"
  shows "set2 m r c v ! r' ! c' = (if r' = r \<and> c' = c then v else m ! r' ! c')"
  using assms by (auto simp: wf_grid_nth set2_def nth_list_update)

lemma wf_emptyMatrix: "wf_grid n (emptyMatrix n)"
  by (simp add: wf_grid_nth emptyMatrix_def)

text \<open>The inner loop of the clockwise rotation, after its first \<open>l\<close> iterations.\<close>

lemma cw_inner:
  assumes "wf_grid n m" and "i < n" and "l \<le> n"
  shows "wf_grid n (fold (\<lambda>j m. set2 m j (n - 1 - i) (g ! i ! j)) [0..<l] m)
       \<and> (\<forall>r<n. \<forall>c<n. fold (\<lambda>j m. set2 m j (n - 1 - i) (g ! i ! j)) [0..<l] m ! r ! c
             = (if c = n - 1 - i \<and> r < l then g ! i ! r else m ! r ! c))"
  using assms(3)
proof (induction l)
  case 0
  then show ?case using assms(1) by simp
next
  case (Suc l)
  let ?m = "fold (\<lambda>j m. set2 m j (n - 1 - i) (g ! i ! j)) [0..<l] m"
  from Suc have IH: "wf_grid n ?m"
    "\<forall>r<n. \<forall>c<n. ?m ! r ! c = (if c = n - 1 - i \<and> r < l then g ! i ! r else m ! r ! c)"
    by simp_all
  have step: "fold (\<lambda>j m. set2 m j (n - 1 - i) (g ! i ! j)) [0..<Suc l] m
              = set2 ?m l (n - 1 - i) (g ! i ! l)"
    by simp
  have "l < n" "n - 1 - i < n"
    using Suc.prems assms(2) by simp_all
  then show ?case
    unfolding step using IH
    by (auto simp: wf_grid_set2 nth_set2 [where n = n] less_Suc_eq)
qed

lemma cw_outer:
  assumes "k \<le> n"
  shows "wf_grid n (fold (\<lambda>i m. fold (\<lambda>j m. set2 m j (n - 1 - i) (g ! i ! j)) [0..<n] m)
                       [0..<k] (emptyMatrix n))
       \<and> (\<forall>r<n. \<forall>c<n. fold (\<lambda>i m. fold (\<lambda>j m. set2 m j (n - 1 - i) (g ! i ! j)) [0..<n] m)
                           [0..<k] (emptyMatrix n) ! r ! c
             = (if n - 1 - c < k then g ! (n - 1 - c) ! r else Undefined))"
  using assms
proof (induction k)
  case 0
  then show ?case by (simp add: wf_emptyMatrix) (simp add: emptyMatrix_def)
next
  case (Suc k)
  let ?m = "fold (\<lambda>i m. fold (\<lambda>j m. set2 m j (n - 1 - i) (g ! i ! j)) [0..<n] m)
              [0..<k] (emptyMatrix n)"
  from Suc have IH: "wf_grid n ?m"
    "\<forall>r<n. \<forall>c<n. ?m ! r ! c = (if n - 1 - c < k then g ! (n - 1 - c) ! r else Undefined)"
    by simp_all
  have kn: "k < n" using Suc.prems by simp
  note inner = cw_inner [OF IH(1) kn order_refl, of g]
  have step: "fold (\<lambda>i m. fold (\<lambda>j m. set2 m j (n - 1 - i) (g ! i ! j)) [0..<n] m)
                [0..<Suc k] (emptyMatrix n)
              = fold (\<lambda>j m. set2 m j (n - 1 - k) (g ! k ! j)) [0..<n] ?m"
    by simp
  show ?case
    unfolding step
  proof (intro conjI allI impI)
    show "wf_grid n (fold (\<lambda>j m. set2 m j (n - 1 - k) (g ! k ! j)) [0..<n] ?m)"
      using inner by simp
  next
    fix r c assume rc: "r < n" "c < n"
    have "c = n - 1 - k \<longleftrightarrow> n - 1 - c = k"
      using rc kn by auto
    then show "fold (\<lambda>j m. set2 m j (n - 1 - k) (g ! k ! j)) [0..<n] ?m ! r ! c
               = (if n - 1 - c < Suc k then g ! (n - 1 - c) ! r else Undefined)"
      using inner IH(2) rc by (auto simp: less_Suc_eq)
  qed
qed

lemma rotatedClockwise_wf: "wf_grid n (rotatedClockwise n g)"
  and rotatedClockwise_nth:
    "r < n \<Longrightarrow> c < n \<Longrightarrow> rotatedClockwise n g ! r ! c = g ! (n - 1 - c) ! r"
  using cw_outer [OF order_refl, of n g] by (auto simp: rotatedClockwise_def)

text \<open>The inner loop of the counter-clockwise rotation, after its first \<open>l\<close> iterations.\<close>

lemma ccw_inner:
  assumes "wf_grid n m" and "i < n" and "l \<le> n"
  shows "wf_grid n (fold (\<lambda>j m. set2 m (n - 1 - j) i (g ! i ! j)) [0..<l] m)
       \<and> (\<forall>r<n. \<forall>c<n. fold (\<lambda>j m. set2 m (n - 1 - j) i (g ! i ! j)) [0..<l] m ! r ! c
             = (if c = i \<and> n - 1 - r < l then g ! i ! (n - 1 - r) else m ! r ! c))"
  using assms(3)
proof (induction l)
  case 0
  then show ?case using assms(1) by simp
next
  case (Suc l)
  let ?m = "fold (\<lambda>j m. set2 m (n - 1 - j) i (g ! i ! j)) [0..<l] m"
  from Suc have IH: "wf_grid n ?m"
    "\<forall>r<n. \<forall>c<n. ?m ! r ! c = (if c = i \<and> n - 1 - r < l then g ! i ! (n - 1 - r) else m ! r ! c)"
    by simp_all
  have step: "fold (\<lambda>j m. set2 m (n - 1 - j) i (g ! i ! j)) [0..<Suc l] m
              = set2 ?m (n - 1 - l) i (g ! i ! l)"
    by simp
  have ln: "l < n" "n - 1 - l < n"
    using Suc.prems by simp_all
  show ?case
    unfolding step
  proof (intro conjI allI impI)
    show "wf_grid n (set2 ?m (n - 1 - l) i (g ! i ! l))"
      using IH(1) by (rule wf_grid_set2)
  next
    fix r c assume rc: "r < n" "c < n"
    have "r = n - 1 - l \<longleftrightarrow> n - 1 - r = l"
      using rc ln by auto
    then show "set2 ?m (n - 1 - l) i (g ! i ! l) ! r ! c
               = (if c = i \<and> n - 1 - r < Suc l then g ! i ! (n - 1 - r) else m ! r ! c)"
      using IH rc ln assms(2) by (auto simp: nth_set2 [where n = n] less_Suc_eq)
  qed
qed

lemma ccw_outer:
  assumes "k \<le> n"
  shows "wf_grid n (fold (\<lambda>i m. fold (\<lambda>j m. set2 m (n - 1 - j) i (g ! i ! j)) [0..<n] m)
                       [0..<k] (emptyMatrix n))
       \<and> (\<forall>r<n. \<forall>c<n. fold (\<lambda>i m. fold (\<lambda>j m. set2 m (n - 1 - j) i (g ! i ! j)) [0..<n] m)
                           [0..<k] (emptyMatrix n) ! r ! c
             = (if c < k then g ! c ! (n - 1 - r) else Undefined))"
  using assms
proof (induction k)
  case 0
  then show ?case by (simp add: wf_emptyMatrix) (simp add: emptyMatrix_def)
next
  case (Suc k)
  let ?m = "fold (\<lambda>i m. fold (\<lambda>j m. set2 m (n - 1 - j) i (g ! i ! j)) [0..<n] m)
              [0..<k] (emptyMatrix n)"
  from Suc have IH: "wf_grid n ?m"
    "\<forall>r<n. \<forall>c<n. ?m ! r ! c = (if c < k then g ! c ! (n - 1 - r) else Undefined)"
    by simp_all
  have kn: "k < n" using Suc.prems by simp
  note inner = ccw_inner [OF IH(1) kn order_refl, of g]
  have step: "fold (\<lambda>i m. fold (\<lambda>j m. set2 m (n - 1 - j) i (g ! i ! j)) [0..<n] m)
                [0..<Suc k] (emptyMatrix n)
              = fold (\<lambda>j m. set2 m (n - 1 - j) k (g ! k ! j)) [0..<n] ?m"
    by simp
  show ?case
    unfolding step
  proof (intro conjI allI impI)
    show "wf_grid n (fold (\<lambda>j m. set2 m (n - 1 - j) k (g ! k ! j)) [0..<n] ?m)"
      using inner by simp
  next
    fix r c assume rc: "r < n" "c < n"
    then have "n - 1 - r < n" by simp
    then show "fold (\<lambda>j m. set2 m (n - 1 - j) k (g ! k ! j)) [0..<n] ?m ! r ! c
               = (if c < Suc k then g ! c ! (n - 1 - r) else Undefined)"
      using inner IH(2) rc by (auto simp: less_Suc_eq)
  qed
qed

lemma rotatedCounterClockwise_wf: "wf_grid n (rotatedCounterClockwise n g)"
  and rotatedCounterClockwise_nth:
    "r < n \<Longrightarrow> c < n \<Longrightarrow> rotatedCounterClockwise n g ! r ! c = g ! c ! (n - 1 - r)"
  using ccw_outer [OF order_refl, of n g] by (auto simp: rotatedCounterClockwise_def)

lemma grid_eqI:
  assumes "wf_grid n a" and "wf_grid n b"
    and "\<And>r c. r < n \<Longrightarrow> c < n \<Longrightarrow> a ! r ! c = b ! r ! c"
  shows "a = b"
proof (rule nth_equalityI)
  show "length a = length b"
    using assms(1,2) by (simp add: wf_grid_nth)
next
  fix r assume "r < length a"
  then have r: "r < n" using assms(1) by (simp add: wf_grid_nth)
  show "a ! r = b ! r"
  proof (rule nth_equalityI)
    show "length (a ! r) = length (b ! r)"
      using assms(1,2) r by (simp add: wf_grid_nth)
  next
    fix c assume "c < length (a ! r)"
    then have "c < n" using assms(1) r by (simp add: wf_grid_nth)
    with r show "a ! r ! c = b ! r ! c" by (rule assms(3))
  qed
qed

lemma rotatedClockwise_four:
  assumes "wf_grid n g"
  shows "rotatedClockwise n (rotatedClockwise n (rotatedClockwise n (rotatedClockwise n g))) = g"
proof (rule grid_eqI [where n = n])
  fix r c assume "r < n" "c < n"
  then show "rotatedClockwise n (rotatedClockwise n (rotatedClockwise n (rotatedClockwise n g)))
               ! r ! c = g ! r ! c"
    by (simp add: rotatedClockwise_nth)
qed (simp_all add: rotatedClockwise_wf assms)

lemma rotated_inverse:
  assumes "wf_grid n g"
  shows "rotatedCounterClockwise n (rotatedClockwise n g) = g"
    and "rotatedClockwise n (rotatedCounterClockwise n g) = g"
proof -
  show "rotatedCounterClockwise n (rotatedClockwise n g) = g"
  proof (rule grid_eqI [where n = n])
    fix r c assume "r < n" "c < n"
    then show "rotatedCounterClockwise n (rotatedClockwise n g) ! r ! c = g ! r ! c"
      by (simp add: rotatedClockwise_nth rotatedCounterClockwise_nth)
  qed (simp_all add: rotatedCounterClockwise_wf assms)
  show "rotatedClockwise n (rotatedCounterClockwise n g) = g"
  proof (rule grid_eqI [where n = n])
    fix r c assume "r < n" "c < n"
    then show "rotatedClockwise n (rotatedCounterClockwise n g) ! r ! c = g ! r ! c"
      by (simp add: rotatedClockwise_nth rotatedCounterClockwise_nth)
  qed (simp_all add: rotatedClockwise_wf assms)
qed

lemma withFace_simps:
  "withFace X g (withFace X g' c) = withFace X g c"
  "withFace X (faces c X) c = c"
  "faces (withFace X g c) X = g"
  by (simp_all add: withFace_def)

lemma wf_face: "wf c \<Longrightarrow> wf_grid (size_c c) (faces c X)"
  by (cases X) (simp_all add: wf_def faceKeys_def)

lemma stub_move_eq:
  assumes "X \<noteq> F"
  shows "move (faceName X) c
         = Completed (withFace X (rotatedClockwise (size_c c) (faces c X)) c)"
    and "move (faceName X @ [apostrophe]) c
         = Completed (withFace X (rotatedCounterClockwise (size_c c) (faces c X)) c)"
  using move_stub_faces [OF assms, of c] by (simp_all add: rotate_eq)

lemma stub_faces_four_turns:
  assumes "wf c" and "X \<noteq> F"
  shows "applyScramble [faceName X, faceName X, faceName X, faceName X] c = Completed c"
  using rotatedClockwise_four [OF wf_face [OF assms(1), of X]]
  by (simp add: stub_move_eq(1) [OF assms(2)] withFace_simps size_withFace)

lemma stub_faces_move_inverse:
  assumes "wf c" and "X \<noteq> F"
  shows "applyScramble [faceName X, faceName X @ [apostrophe]] c = Completed c"
    and "applyScramble [faceName X @ [apostrophe], faceName X] c = Completed c"
  using rotated_inverse [OF wf_face [OF assms(1), of X]]
  by (simp_all add: stub_move_eq [OF assms(2)] withFace_simps size_withFace)

subsection \<open>Colour counts under the moves of B, U, D, L and R\<close>

text \<open>A rotation permutes the stickers of a grid, so it keeps the count of every colour.\<close>

lemma count_list_sum_nth:
  "count_list xs x = (\<Sum>i<length xs. if xs ! i = x then 1 else 0)"
proof (induction xs rule: rev_induct)
  case Nil
  show ?case by simp
next
  case (snoc y ys)
  have "(\<Sum>i<length ys. if (ys @ [y]) ! i = x then 1 else 0 :: nat)
        = (\<Sum>i<length ys. if ys ! i = x then 1 else 0)"
    by (rule sum.cong) (simp_all add: nth_append)
  with snoc show ?case
    by (simp add: nth_append)
qed

lemma count_list_concat:
  "count_list (concat g) x = (\<Sum>r<length g. count_list (g ! r) x)"
proof (induction g rule: rev_induct)
  case Nil
  show ?case by simp
next
  case (snoc row rows)
  have "(\<Sum>r<length rows. count_list ((rows @ [row]) ! r) x)
        = (\<Sum>r<length rows. count_list (rows ! r) x)"
    by (rule sum.cong) (simp_all add: nth_append)
  with snoc show ?case
    by (simp add: nth_append)
qed

lemma count_grid:
  assumes "wf_grid n g"
  shows "count_list (concat g) x = (\<Sum>r<n. \<Sum>c<n. if g ! r ! c = x then 1 else 0)"
proof -
  have "count_list (concat g) x = (\<Sum>r<n. count_list (g ! r) x)"
    using assms by (simp add: count_list_concat wf_grid_nth)
  also have "\<dots> = (\<Sum>r<n. \<Sum>c<n. if g ! r ! c = x then 1 else 0)"
    using assms by (intro sum.cong refl) (simp add: count_list_sum_nth wf_grid_nth)
  finally show ?thesis .
qed

lemma sum_reverse_index: "(\<Sum>c<n. f (n - 1 - c)) = (\<Sum>c<n. f c)" for f :: "nat \<Rightarrow> nat"
  using sum.nat_diff_reindex [of f n] by simp

lemma count_rotatedClockwise:
  assumes "wf_grid n g"
  shows "count_list (concat (rotatedClockwise n g)) x = count_list (concat g) x"
proof -
  have "count_list (concat (rotatedClockwise n g)) x
        = (\<Sum>r<n. \<Sum>c<n. if rotatedClockwise n g ! r ! c = x then 1 else 0)"
    by (rule count_grid) (rule rotatedClockwise_wf)
  also have "\<dots> = (\<Sum>r<n. \<Sum>c<n. if g ! (n - 1 - c) ! r = x then 1 else 0)"
    by (intro sum.cong refl) (simp add: rotatedClockwise_nth)
  also have "\<dots> = (\<Sum>c<n. \<Sum>r<n. if g ! (n - 1 - c) ! r = x then 1 else 0)"
    by (rule sum.swap)
  also have "\<dots> = (\<Sum>c<n. \<Sum>r<n. if g ! c ! r = x then 1 else 0)"
    by (rule sum_reverse_index [of "\<lambda>c. \<Sum>r<n. if g ! c ! r = x then 1 else 0" n])
  also have "\<dots> = count_list (concat g) x"
    using assms by (simp add: count_grid)
  finally show ?thesis .
qed

lemma count_rotatedCounterClockwise:
  assumes "wf_grid n g"
  shows "count_list (concat (rotatedCounterClockwise n g)) x = count_list (concat g) x"
proof -
  have "count_list (concat (rotatedCounterClockwise n g)) x
        = count_list (concat (rotatedClockwise n (rotatedCounterClockwise n g))) x"
    by (rule count_rotatedClockwise [symmetric]) (rule rotatedCounterClockwise_wf)
  then show ?thesis
    using rotated_inverse(2) [OF assms] by simp
qed

lemma colorCount_withFace:
  assumes "count_list (concat g) (Str col) = count_list (concat (faces c X)) (Str col)"
  shows "colorCount (withFace X g c) col = colorCount c col"
  using assms by (cases X) (simp_all add: colorCount_def faceKeys_def withFace_def)

lemma stub_moves_keep_color_counts:
  assumes "wf c" and "X \<noteq> F"
  shows "colorCount (state_of (move (faceName X) c)) col = colorCount c col"
    and "colorCount (state_of (move (faceName X @ [apostrophe]) c)) col = colorCount c col"
  using count_rotatedClockwise [OF wf_face [OF assms(1), of X]]
    count_rotatedCounterClockwise [OF wf_face [OF assms(1), of X]]
  by (simp_all add: stub_move_eq [OF assms(2)] colorCount_withFace)

subsection \<open>The F move on a 3x3 cube\<close>

text \<open>
  On a well-formed cube of size 3, row \<open>U[2]\<close> is the bottom row of U: four F moves
  give the cube back, F and F' undo each other, and both keep the count of every colour.
  The stickers of the five faces involved are arbitrary.
\<close>

lemma wf_grid3_explicit:
  assumes "wf_grid 3 g"
  shows "\<exists>a0 a1 a2 b0 b1 b2 c0 c1 c2. g = [[a0, a1, a2], [b0, b1, b2], [c0, c1, c2]]"
proof -
  from assms obtain r0 r1 r2 where g: "g = [r0, r1, r2]"
    by (auto simp: wf_grid_def numeral_3_eq_3 length_Suc_conv)
  with assms have "length r0 = 3" "length r1 = 3" "length r2 = 3"
    by (simp_all add: wf_grid_def)
  then obtain a0 a1 a2 b0 b1 b2 c0 c1 c2 where
    "r0 = [a0, a1, a2]" "r1 = [b0, b1, b2]" "r2 = [c0, c1, c2]"
    by (auto simp: numeral_3_eq_3 length_Suc_conv)
  with g show ?thesis by blast
qed

lemma cube_eqI:
  assumes "size_c c' = size_c c" and "\<And>X. faces c' X = faces c X"
    and "cube.more c' = cube.more c"
  shows "c' = c"
  using assms by (intro cube.equality ext) simp_all

lemma F_four_turns_size3:
  assumes "wf c" and "size_c c = 3"
  shows "applyScramble [''F'', ''F'', ''F'', ''F''] c = Completed c"
proof -
  obtain u0 u1 u2 u3 u4 u5 u6 u7 u8 where fU: "faces c U = [[u0, u1, u2], [u3, u4, u5], [u6, u7, u8]]"
    using wf_grid3_explicit [OF wf_face [OF assms(1), of U, unfolded assms(2)]] by blast
  obtain d0 d1 d2 d3 d4 d5 d6 d7 d8 where fD: "faces c D = [[d0, d1, d2], [d3, d4, d5], [d6, d7, d8]]"
    using wf_grid3_explicit [OF wf_face [OF assms(1), of D, unfolded assms(2)]] by blast
  obtain l0 l1 l2 l3 l4 l5 l6 l7 l8 where fL: "faces c L = [[l0, l1, l2], [l3, l4, l5], [l6, l7, l8]]"
    using wf_grid3_explicit [OF wf_face [OF assms(1), of L, unfolded assms(2)]] by blast
  obtain r0 r1 r2 r3 r4 r5 r6 r7 r8 where fR: "faces c R = [[r0, r1, r2], [r3, r4, r5], [r6, r7, r8]]"
    using wf_grid3_explicit [OF wf_face [OF assms(1), of R, unfolded assms(2)]] by blast
  obtain f0 f1 f2 f3 f4 f5 f6 f7 f8 where fF: "faces c F = [[f0, f1, f2], [f3, f4, f5], [f6, f7, f8]]"
    using wf_grid3_explicit [OF wf_face [OF assms(1), of F, unfolded assms(2)]] by blast
  note ev = cube_defs eval_nat_numeral assms(2) fU fD fL fR fF
  let ?r = "applyScramble [''F'', ''F'', ''F'', ''F''] c"
  have completes: "\<not> threw ?r"
    by (simp add: ev)
  have "state_of ?r = c"
  proof (rule cube_eqI)
    show "size_c (state_of ?r) = size_c c"
      by (simp add: ev)
    show "cube.more (state_of ?r) = cube.more c"
      by (simp add: ev)
    fix X show "faces (state_of ?r) X = faces c X"
      by (cases X) (simp_all add: ev)
  qed
  with completes show ?thesis
    by (cases ?r) simp_all
qed

lemma F_move_inverse_size3:
  assumes "wf c" and "size_c c = 3"
  shows "applyScramble [''F'', ''F'' @ [apostrophe]] c = Completed c"
    and "applyScramble [''F'' @ [apostrophe], ''F''] c = Completed c"
proof -
  obtain u0 u1 u2 u3 u4 u5 u6 u7 u8 where fU: "faces c U = [[u0, u1, u2], [u3, u4, u5], [u6, u7, u8]]"
    using wf_grid3_explicit [OF wf_face [OF assms(1), of U, unfolded assms(2)]] by blast
  obtain d0 d1 d2 d3 d4 d5 d6 d7 d8 where fD: "faces c D = [[d0, d1, d2], [d3, d4, d5], [d6, d7, d8]]"
    using wf_grid3_explicit [OF wf_face [OF assms(1), of D, unfolded assms(2)]] by blast
  obtain l0 l1 l2 l3 l4 l5 l6 l7 l8 where fL: "faces c L = [[l0, l1, l2], [l3, l4, l5], [l6, l7, l8]]"
    using wf_grid3_explicit [OF wf_face [OF assms(1), of L, unfolded assms(2)]] by blast
  obtain r0 r1 r2 r3 r4 r5 r6 r7 r8 where fR: "faces c R = [[r0, r1, r2], [r3, r4, r5], [r6, r7, r8]]"
    using wf_grid3_explicit [OF wf_face [OF assms(1), of R, unfolded assms(2)]] by blast
  obtain f0 f1 f2 f3 f4 f5 f6 f7 f8 where fF: "faces c F = [[f0, f1, f2], [f3, f4, f5], [f6, f7, f8]]"
    using wf_grid3_explicit [OF wf_face [OF assms(1), of F, unfolded assms(2)]] by blast
  note ev = cube_defs eval_nat_numeral assms(2) fU fD fL fR fF
  let ?r = "applyScramble [''F'', ''F'' @ [apostrophe]] c"
  let ?s = "applyScramble [''F'' @ [apostrophe], ''F''] c"
  have completes: "\<not> threw ?r" "\<not> threw ?s"
    by (simp_all add: ev)
  have "state_of ?r = c"
  proof (rule cube_eqI)
    show "size_c (state_of ?r) = size_c c"
      by (simp add: ev)
    show "cube.more (state_of ?r) = cube.more c"
      by (simp add: ev)
    fix X show "faces (state_of ?r) X = faces c X"
      by (cases X) (simp_all add: ev)
  qed
  with completes(1) show "?r = Completed c"
    by (cases ?r) simp_all
  have "state_of ?s = c"
  proof (rule cube_eqI)
    show "size_c (state_of ?s) = size_c c"
      by (simp add: ev)
    show "cube.more (state_of ?s) = cube.more c"
      by (simp add: ev)
    fix X show "faces (state_of ?s) X = faces c X"
      by (cases X) (simp_all add: ev)
  qed
  with completes(2) show "?s = Completed c"
    by (cases ?s) simp_all
qed

lemma F_move_keeps_color_counts_size3:
  assumes "wf c" and "size_c c = 3"
  shows "colorCount (state_of (move ''F'' c)) col = colorCount c col"
    and "colorCount (state_of (move (''F'' @ [apostrophe]) c)) col = colorCount c col"
proof -
  obtain u0 u1 u2 u3 u4 u5 u6 u7 u8 where fU: "faces c U = [[u0, u1, u2], [u3, u4, u5], [u6, u7, u8]]"
    using wf_grid3_explicit [OF wf_face [OF assms(1), of U, unfolded assms(2)]] by blast
  obtain d0 d1 d2 d3 d4 d5 d6 d7 d8 where fD: "faces c D = [[d0, d1, d2], [d3, d4, d5], [d6, d7, d8]]"
    using wf_grid3_explicit [OF wf_face [OF assms(1), of D, unfolded assms(2)]] by blast
  obtain l0 l1 l2 l3 l4 l5 l6 l7 l8 where fL: "faces c L = [[l0, l1, l2], [l3, l4, l5], [l6, l7, l8]]"
    using wf_grid3_explicit [OF wf_face [OF assms(1), of L, unfolded assms(2)]] by blast
  obtain r0 r1 r2 r3 r4 r5 r6 r7 r8 where fR: "faces c R = [[r0, r1, r2], [r3, r4, r5], [r6, r7, r8]]"
    using wf_grid3_explicit [OF wf_face [OF assms(1), of R, unfolded assms(2)]] by blast
  obtain f0 f1 f2 f3 f4 f5 f6 f7 f8 where fF: "faces c F = [[f0, f1, f2], [f3, f4, f5], [f6, f7, f8]]"
    using wf_grid3_explicit [OF wf_face [OF assms(1), of F, unfolded assms(2)]] by blast
  note ev = cube_defs eval_nat_numeral assms(2) fU fD fL fR fF
  define ind where "ind = (\<lambda>x. if x = Str col then 1::nat else 0)"
  have cl: "count_list xs (Str col) = sum_list (map ind xs)" for xs
    by (induction xs) (simp_all add: ind_def)
  show "colorCount (state_of (move ''F'' c)) col = colorCount c col"
    by (simp add: ev colorCount_def cl del: count_list.simps)
  show "colorCount (state_of (move (''F'' @ [apostrophe]) c)) col = colorCount c col"
    by (simp add: ev colorCount_def cl del: count_list.simps)
qed

subsection \<open>The F move on other sizes\<close>

text \<open>
  On a well-formed cube of size 2 or less, \<open>this.faces.U[2]\<close> is \<open>undefined\<close>: the
  clockwise F move throws after it has rotated the F grid.
\<close>

lemma move_F_small_size_throws:
  assumes "wf c" and "size_c c \<le> 2"
  shows "move ''F'' c = Threw TypeError (rotateFaceClockwise F c)"
proof -
  have "length (faces c U) = size_c c"
    using assms(1) by (simp add: wf_def wf_grid_def faceKeys_def)
  then have "\<not> 2 < length (faces (rotateFaceClockwise F c) U)"
    using assms(2) by (simp add: rotate_frame)
  then show ?thesis
    by (simp add: move_def moveFFaceStickers_def Let_def)
qed

lemma wf_cube2_recolored: "wf cube2_recolored \<and> size_c cube2_recolored = 2"
  by (simp add: cube2_recolored_def wf_def wf_grid_def cube_defs eval_nat_numeral)

lemma wf_cube4_after_F: "wf cube4_after_F \<and> size_c cube4_after_F = 4"
  by (simp add: cube4_after_F_def wf_def wf_grid_def cube_defs eval_nat_numeral)

text \<open>
  Claim C1 on the code. On the solved 4x4 cube, four \<open>F\<close> moves complete but do not
  give the cube back: the clockwise branch of \<open>moveFFaceStickers\<close> saves row
  \<open>U[2]\<close> where the strip it overwrites is row \<open>U[size - 1] = U[3]\<close>, so the right column
  of L ends up white. (On a 2x2 cube the same read throws, lemma
  \<open>move_F_small_size_throws\<close>.)
\<close>

theorem four_F_turns_size4_not_identity:
  "\<not> threw (applyScramble [''F'', ''F'', ''F'', ''F''] (Cube 4 False))
   \<and> faces (state_of (applyScramble [''F'', ''F'', ''F'', ''F''] (Cube 4 False))) L =
       [[Str ''G'', Str ''G'', Str ''G'', Str ''W''],
        [Str ''G'', Str ''G'', Str ''G'', Str ''W''],
        [Str ''G'', Str ''G'', Str ''G'', Str ''W''],
        [Str ''G'', Str ''G'', Str ''G'', Str ''W'']]
   \<and> faces (Cube 4 False) L =
       [[Str ''G'', Str ''G'', Str ''G'', Str ''G''],
        [Str ''G'', Str ''G'', Str ''G'', Str ''G''],
        [Str ''G'', Str ''G'', Str ''G'', Str ''G''],
        [Str ''G'', Str ''G'', Str ''G'', Str ''G'']]
   \<and> applyScramble [''F'', ''F'', ''F'', ''F''] (Cube 4 False) \<noteq> Completed (Cube 4 False)"
proof -
  let ?r = "applyScramble [''F'', ''F'', ''F'', ''F''] (Cube 4 False)"
  have a: "\<not> threw ?r"
    by (simp add: cube_defs eval_nat_numeral)
  have b: "faces (state_of ?r) L =
       [[Str ''G'', Str ''G'', Str ''G'', Str ''W''],
        [Str ''G'', Str ''G'', Str ''G'', Str ''W''],
        [Str ''G'', Str ''G'', Str ''G'', Str ''W''],
        [Str ''G'', Str ''G'', Str ''G'', Str ''W'']]"
    by (simp add: cube_defs eval_nat_numeral)
  have c: "faces (Cube 4 False) L =
       [[Str ''G'', Str ''G'', Str ''G'', Str ''G''],
        [Str ''G'', Str ''G'', Str ''G'', Str ''G''],
        [Str ''G'', Str ''G'', Str ''G'', Str ''G''],
        [Str ''G'', Str ''G'', Str ''G'', Str ''G'']]"
    by (simp add: cube_defs eval_nat_numeral)
  have d: "?r \<noteq> Completed (Cube 4 False)"
  proof
    assume "?r = Completed (Cube 4 False)"
    then have "state_of ?r = Cube 4 False" by simp
    with b c show False by simp
  qed
  from a b c d show ?thesis by blast
qed

text \<open>
  Claim C2 on the code. From the 4x4 cube reached by one \<open>F\<close> on the solved cube, \<open>F\<close>
  followed by \<open>F'\<close> completes but does not give that cube back: the bottom row of U was
  green and comes back white.
\<close>

theorem F_then_F_prime_size4_not_identity:
  "\<not> threw (applyScramble [''F'', ''F'' @ [apostrophe]] cube4_after_F)
   \<and> faces cube4_after_F U ! 3 = [Str ''G'', Str ''G'', Str ''G'', Str ''G'']
   \<and> faces (state_of (applyScramble [''F'', ''F'' @ [apostrophe]] cube4_after_F)) U ! 3 =
       [Str ''W'', Str ''W'', Str ''W'', Str ''W'']
   \<and> applyScramble [''F'', ''F'' @ [apostrophe]] cube4_after_F \<noteq> Completed cube4_after_F"
proof -
  let ?r = "applyScramble [''F'', ''F'' @ [apostrophe]] cube4_after_F"
  have a: "\<not> threw ?r"
    by (simp add: cube4_after_F_def cube_defs eval_nat_numeral)
  have b: "faces cube4_after_F U ! 3 = [Str ''G'', Str ''G'', Str ''G'', Str ''G'']"
    by (simp add: cube4_after_F_def cube_defs eval_nat_numeral)
  have c: "faces (state_of ?r) U ! 3 = [Str ''W'', Str ''W'', Str ''W'', Str ''W'']"
    by (simp add: cube4_after_F_def cube_defs eval_nat_numeral)
  have d: "?r \<noteq> Completed cube4_after_F"
  proof
    assume "?r = Completed cube4_after_F"
    then have "state_of ?r = cube4_after_F" by simp
    with b c show False by simp
  qed
  from a b c d show ?thesis by blast
qed

text \<open>
  Claim C3 on the code. \<open>move('F2')\<close> matches no case of the \<open>switch\<close> (the face string
  is \<open>'F2'\<close>) and leaves the solved 3x3 cube unchanged, while two \<open>F\<close> moves bring the
  yellow strip of D to the bottom row of U.
\<close>

theorem half_turn_F2_ignored:
  "move ''F2'' (Cube 3 False) = Completed (Cube 3 False)
   \<and> \<not> threw (applyScramble [''F'', ''F''] (Cube 3 False))
   \<and> faces (state_of (applyScramble [''F'', ''F''] (Cube 3 False))) U ! 2 =
       [Str ''Y'', Str ''Y'', Str ''Y'']
   \<and> faces (Cube 3 False) U ! 2 = [Str ''W'', Str ''W'', Str ''W'']
   \<and> applyScramble [''F'', ''F''] (Cube 3 False) \<noteq> move ''F2'' (Cube 3 False)"
proof -
  let ?r = "applyScramble [''F'', ''F''] (Cube 3 False)"
  have a: "move ''F2'' (Cube 3 False) = Completed (Cube 3 False)"
    by (simp add: move_def)
  have b: "\<not> threw ?r"
    by (simp add: cube_defs eval_nat_numeral)
  have c: "faces (state_of ?r) U ! 2 = [Str ''Y'', Str ''Y'', Str ''Y'']"
    by (simp add: cube_defs eval_nat_numeral)
  have d: "faces (Cube 3 False) U ! 2 = [Str ''W'', Str ''W'', Str ''W'']"
    by (simp add: cube_defs eval_nat_numeral)
  have e: "?r \<noteq> move ''F2'' (Cube 3 False)"
  proof
    assume "?r = move ''F2'' (Cube 3 False)"
    then have "state_of ?r = Cube 3 False" using a by simp
    with c d show False by simp
  qed
  from a b c d e show ?thesis by blast
qed

text \<open>
  Claim C4 on the code. The 4x4 cube reached by one \<open>F\<close> on the solved cube has each of
  the six colours 16 times; after one more \<open>F\<close> it has white 20 times and green 12
  times.
\<close>

theorem F_move_size4_changes_color_counts:
  "wf cube4_after_F \<and> size_c cube4_after_F = 4
   \<and> map (colorCount cube4_after_F) colors = [16, 16, 16, 16, 16, 16]
   \<and> \<not> threw (move ''F'' cube4_after_F)
   \<and> map (colorCount (state_of (move ''F'' cube4_after_F))) colors = [20, 16, 12, 16, 16, 16]"
proof -
  have a: "map (colorCount cube4_after_F) colors = [16, 16, 16, 16, 16, 16]"
    by (simp add: cube4_after_F_def colorCount_def colors_def cube_defs eval_nat_numeral)
  have b: "\<not> threw (move ''F'' cube4_after_F)"
    by (simp add: cube4_after_F_def cube_defs eval_nat_numeral)
  have c: "map (colorCount (state_of (move ''F'' cube4_after_F))) colors
             = [20, 16, 12, 16, 16, 16]"
    by (simp add: cube4_after_F_def colorCount_def colors_def cube_defs eval_nat_numeral)
  from a b c wf_cube4_after_F show ?thesis by blast
qed

text \<open>
  Claim C6 on the code. On a 2x2 cube the clockwise \<open>F\<close> throws a TypeError after the
  F face has been rotated. So \<open>F\<close> then \<open>B\<close> stops with the B face untouched, while
  \<open>B\<close> then \<open>F\<close> stops with the B face rotated: the two orders leave different cubes.
\<close>

theorem F_B_size2_do_not_commute:
  "wf cube2_recolored \<and> size_c cube2_recolored = 2
   \<and> threw (applyScramble [''F'', ''B''] cube2_recolored)
   \<and> threw (applyScramble [''B'', ''F''] cube2_recolored)
   \<and> faces (state_of (applyScramble [''F'', ''B''] cube2_recolored)) B =
       [[Str ''Y'', Str ''O''], [Str ''O'', Str ''O'']]
   \<and> faces (state_of (applyScramble [''B'', ''F''] cube2_recolored)) B =
       [[Str ''O'', Str ''Y''], [Str ''O'', Str ''O'']]
   \<and> applyScramble [''F'', ''B''] cube2_recolored \<noteq> applyScramble [''B'', ''F''] cube2_recolored"
proof -
  let ?fb = "applyScramble [''F'', ''B''] cube2_recolored"
  let ?bf = "applyScramble [''B'', ''F''] cube2_recolored"
  have a: "threw ?fb" "threw ?bf"
    by (simp_all add: cube2_recolored_def cube_defs eval_nat_numeral)
  have b: "faces (state_of ?fb) B = [[Str ''Y'', Str ''O''], [Str ''O'', Str ''O'']]"
    by (simp add: cube2_recolored_def cube_defs eval_nat_numeral)
  have c: "faces (state_of ?bf) B = [[Str ''O'', Str ''Y''], [Str ''O'', Str ''O'']]"
    by (simp add: cube2_recolored_def cube_defs eval_nat_numeral)
  have d: "?fb \<noteq> ?bf"
  proof
    assume "?fb = ?bf"
    then have "faces (state_of ?fb) B = faces (state_of ?bf) B" by simp
    with b c show False by simp
  qed
  from a b c d wf_cube2_recolored show ?thesis by blast
qed


section \<open>Properties of the scrambler\<close>

lemma moves_basic:
  "''F'' \<in> set (moves (Scrambler n))" "''R'' \<in> set (moves (Scrambler n))"
  "''U'' \<in> set (moves (Scrambler n))"
  by (simp_all add: Scrambler_def getMovesForSize_def)

lemma axis_basic:
  "getMoveAxis ''F'' = ''x''" "getMoveAxis ''R'' = ''y''" "getMoveAxis ''U'' = ''z''"
  by (simp_all add: getMoveAxis_def toLowerCase_def)

lemma moves_nonempty: "mv \<in> set (moves (Scrambler n)) \<Longrightarrow> mv \<noteq> []"
  by (auto simp: Scrambler_def getMovesForSize_def split: if_splits)

lemma some_move_available:
  "\<exists>mv \<in> set (moves (Scrambler n)). mv \<noteq> lastMove \<and> getMoveAxis mv \<noteq> lastAxis"
proof (cases "lastAxis = ''x''")
  case True
  show ?thesis
  proof (cases "lastMove = ''R''")
    case True
    with \<open>lastAxis = ''x''\<close> moves_basic(3) [of n] axis_basic(3) show ?thesis
      by (intro bexI [of _ "''U''"]) simp_all
  next
    case False
    with \<open>lastAxis = ''x''\<close> moves_basic(2) [of n] axis_basic(2) show ?thesis
      by (intro bexI [of _ "''R''"]) simp_all
  qed
next
  case notx: False
  show ?thesis
  proof (cases "lastMove = ''F''")
    case False
    with notx moves_basic(1) [of n] axis_basic(1) show ?thesis
      by (intro bexI [of _ "''F''"]) simp_all
  next
    case True
    show ?thesis
    proof (cases "lastAxis = ''y''")
      case True
      with \<open>lastMove = ''F''\<close> moves_basic(3) [of n] axis_basic(3) show ?thesis
        by (intro bexI [of _ "''U''"]) simp_all
    next
      case False
      with \<open>lastMove = ''F''\<close> moves_basic(2) [of n] axis_basic(2) show ?thesis
        by (intro bexI [of _ "''R''"]) simp_all
    qed
  qed
qed

lemma randomIndex_less:
  assumes "0 \<le> u" and "u < 1" and "0 < n"
  shows "randomIndex u n < n"
proof -
  have "u * real n < real n"
    using assms by simp
  then have "\<lfloor>u * real n\<rfloor> < int n"
    by (simp add: floor_less_iff)
  moreover have "0 \<le> \<lfloor>u * real n\<rfloor>"
    using assms by simp
  ultimately have "nat \<lfloor>u * real n\<rfloor> < n"
    by linarith
  then show ?thesis
    by (simp add: randomIndex_def)
qed

lemma getRandomMove_picks:
  assumes "0 \<le> random k" and "random k < 1"
  shows "\<exists>mv. getRandomMove (Scrambler n) random k lastMove lastAxis = (Some mv, Suc k)
           \<and> mv \<in> set (moves (Scrambler n)) \<and> mv \<noteq> lastMove
           \<and> getMoveAxis mv \<noteq> lastAxis"
proof -
  let ?keep = "\<lambda>mv. if mv = lastMove then False
                      else if getMoveAxis mv = lastAxis then False else True"
  let ?av = "filter ?keep (moves (Scrambler n))"
  obtain m0 where "m0 \<in> set (moves (Scrambler n))" "m0 \<noteq> lastMove"
    "getMoveAxis m0 \<noteq> lastAxis"
    using some_move_available by blast
  then have "m0 \<in> set ?av" by simp
  then have pos: "0 < length ?av"
    by (cases ?av) auto
  define mv where "mv = ?av ! randomIndex (random k) (length ?av)"
  have "randomIndex (random k) (length ?av) < length ?av"
    using assms pos by (rule randomIndex_less)
  then have "mv \<in> set ?av"
    unfolding mv_def by (rule nth_mem)
  then have "mv \<in> set (moves (Scrambler n))" and "?keep mv"
    by (auto split: if_splits)
  then have props: "mv \<in> set (moves (Scrambler n))" "mv \<noteq> lastMove"
    "getMoveAxis mv \<noteq> lastAxis"
    by (simp_all split: if_splits)
  have "getRandomMove (Scrambler n) random k lastMove lastAxis = (Some mv, Suc k)"
    using pos unfolding mv_def by (simp add: getRandomMove_def Let_def)
  with props show ?thesis
    by blast
qed

lemma scrambleLoop_returns:
  assumes "\<forall>k. 0 \<le> random k \<and> random k < 1"
    and "length scramble \<le> len"
    and "set scramble \<subseteq> set (moves (Scrambler n))"
    and "distinct_adj (map getMoveAxis scramble)"
    and "scramble \<noteq> [] \<Longrightarrow> lastAxis = getMoveAxis (last scramble)"
  shows "\<exists>ys. scrambleLoop (Scrambler n) random k len scramble lastMove lastAxis = Some ys
           \<and> length ys = len \<and> set ys \<subseteq> set (moves (Scrambler n))
           \<and> distinct_adj (map getMoveAxis ys)"
  using assms(2-)
proof (induction "len - length scramble" arbitrary: scramble lastMove lastAxis k)
  case 0
  then have "length scramble = len" by simp
  then show ?case
    using "0.prems" by (subst scrambleLoop.simps) simp
next
  case (Suc d)
  then have lt: "length scramble < len" by simp
  obtain mv where pick:
    "getRandomMove (Scrambler n) random k lastMove lastAxis = (Some mv, Suc k)"
    "mv \<in> set (moves (Scrambler n))" "getMoveAxis mv \<noteq> lastAxis"
    using getRandomMove_picks [of random k n lastMove lastAxis] assms(1) by blast
  have ne: "mv \<noteq> []"
    using pick(2) by (rule moves_nonempty)
  have adj: "distinct_adj (map getMoveAxis (scramble @ [mv]))"
    using Suc.prems(3,4) pick(3)
    by (cases "scramble = []") (simp_all add: distinct_adj_append_iff last_map)
  have "\<exists>ys. scrambleLoop (Scrambler n) random (Suc k) len (scramble @ [mv]) mv
                 (getMoveAxis mv) = Some ys
           \<and> length ys = len \<and> set ys \<subseteq> set (moves (Scrambler n))
           \<and> distinct_adj (map getMoveAxis ys)"
  proof (rule Suc.hyps(1))
    show "d = len - length (scramble @ [mv])"
      using Suc.hyps(2) by simp
    show "length (scramble @ [mv]) \<le> len"
      using lt by simp
    show "set (scramble @ [mv]) \<subseteq> set (moves (Scrambler n))"
      using Suc.prems(2) pick(2) by simp
    show "distinct_adj (map getMoveAxis (scramble @ [mv]))"
      by (rule adj)
    show "getMoveAxis mv = getMoveAxis (last (scramble @ [mv]))"
      by simp
  qed
  moreover have "scrambleLoop (Scrambler n) random k len scramble lastMove lastAxis
      = scrambleLoop (Scrambler n) random (Suc k) len (scramble @ [mv]) mv (getMoveAxis mv)"
    using lt pick(1) ne by (subst scrambleLoop.simps) simp
  ultimately show ?case by simp
qed

lemma axis_determined_by_face:
  "toLowerCase (moveFace a) = toLowerCase (moveFace b) \<Longrightarrow> getMoveAxis a = getMoveAxis b"
  by (simp add: getMoveAxis_def moveFace_def)

text \<open>
  Claim C8. For every cube size and every requested length, whatever values in \<open>[0, 1)\<close>
  \<open>Math.random\<close> returns, \<open>generateScramble\<close> returns (the loop ends), the sequence has
  exactly the requested number of moves, all from the move list of the size, and any two
  consecutive moves differ in axis and in face (also when the case of the face letter is
  ignored, so an outer move is never followed by the slice move of the same face).
\<close>

theorem generateScramble_length_and_axes:
  assumes "\<forall>k. 0 \<le> random k \<and> random k < 1"
  shows "\<exists>ys. generateScramble (Scrambler n) random len = Some ys
           \<and> length ys = len
           \<and> set ys \<subseteq> set (getMovesForSize n)
           \<and> (\<forall>i. Suc i < len \<longrightarrow>
                 getMoveAxis (ys ! i) \<noteq> getMoveAxis (ys ! Suc i)
                 \<and> moveFace (ys ! i) \<noteq> moveFace (ys ! Suc i)
                 \<and> toLowerCase (moveFace (ys ! i)) \<noteq> toLowerCase (moveFace (ys ! Suc i)))"
proof -
  obtain ys where ys: "scrambleLoop (Scrambler n) random 0 len [] [] [] = Some ys"
    "length ys = len" "set ys \<subseteq> set (moves (Scrambler n))"
    "distinct_adj (map getMoveAxis ys)"
    using scrambleLoop_returns [OF assms, of "[]" len n "[]" 0 "[]"] by auto
  have axes: "getMoveAxis (ys ! i) \<noteq> getMoveAxis (ys ! Suc i)" if "Suc i < len" for i
    using distinct_adj_nth [OF ys(4), of i] that ys(2) by simp
  have "getMoveAxis (ys ! i) \<noteq> getMoveAxis (ys ! Suc i)
        \<and> moveFace (ys ! i) \<noteq> moveFace (ys ! Suc i)
        \<and> toLowerCase (moveFace (ys ! i)) \<noteq> toLowerCase (moveFace (ys ! Suc i))"
    if "Suc i < len" for i
    using axes [OF that] axis_determined_by_face [of "ys ! i" "ys ! Suc i"] by auto
  moreover have "set ys \<subseteq> set (getMovesForSize n)"
    using ys(3) by (simp add: Scrambler_def)
  ultimately show ?thesis
    using ys(1,2) by (auto simp: generateScramble_def)
qed


text \<open>
  Claim C8 for size 3 and length 20, on the sample sequence of random values: the 20
  moves returned, and the axes of the first two.
\<close>

theorem generateScramble_length_and_axes_witness:
  "(\<forall>k. 0 \<le> sampleRandom k \<and> sampleRandom k < 1)
   \<and> generateScramble (Scrambler 3) sampleRandom 20 = Some
        [''F'', ''R'' @ [apostrophe], ''U'', ''R'' @ [apostrophe], ''B'',
         ''L'' @ [apostrophe], ''D'', ''F'', ''R'' @ [apostrophe], ''U'',
         ''R'' @ [apostrophe], ''B'', ''L'' @ [apostrophe], ''D'', ''F'',
         ''R'' @ [apostrophe], ''U'', ''R'' @ [apostrophe], ''B'', ''L'' @ [apostrophe]]
   \<and> (\<exists>ys. generateScramble (Scrambler 3) sampleRandom 20 = Some ys
          \<and> length ys = 20
          \<and> (Suc 0 < (20::nat) \<longrightarrow> getMoveAxis (ys ! 0) \<noteq> getMoveAxis (ys ! Suc 0)
                \<and> moveFace (ys ! 0) \<noteq> moveFace (ys ! Suc 0)))"
proof -
  have range: "\<forall>k. 0 \<le> sampleRandom k \<and> sampleRandom k < 1"
    by (simp add: sampleRandom_def)
  have run: "generateScramble (Scrambler 3) sampleRandom 20 = Some
        [''F'', ''R'' @ [apostrophe], ''U'', ''R'' @ [apostrophe], ''B'',
         ''L'' @ [apostrophe], ''D'', ''F'', ''R'' @ [apostrophe], ''U'',
         ''R'' @ [apostrophe], ''B'', ''L'' @ [apostrophe], ''D'', ''F'',
         ''R'' @ [apostrophe], ''U'', ''R'' @ [apostrophe], ''B'', ''L'' @ [apostrophe]]"
    by (simp add: generateScramble_def scrambleLoop.simps getRandomMove_def Scrambler_def
        getMovesForSize_def getMoveAxis_def toLowerCase_def randomIndex_def Let_def
        sampleRandom_def)
  from generateScramble_length_and_axes [OF range, of 3 20]
  obtain ys where ys: "generateScramble (Scrambler 3) sampleRandom 20 = Some ys"
    "length ys = 20"
    "\<forall>i. Suc i < 20 \<longrightarrow> getMoveAxis (ys ! i) \<noteq> getMoveAxis (ys ! Suc i)
           \<and> moveFace (ys ! i) \<noteq> moveFace (ys ! Suc i)
           \<and> toLowerCase (moveFace (ys ! i)) \<noteq> toLowerCase (moveFace (ys ! Suc i))"
    by blast
  from ys(3) have "Suc 0 < (20::nat) \<longrightarrow> getMoveAxis (ys ! 0) \<noteq> getMoveAxis (ys ! Suc 0)
                \<and> moveFace (ys ! 0) \<noteq> moveFace (ys ! Suc 0)"
    by blast
  with ys(1,2) range run show ?thesis
    by blast
qed

section \<open>Properties of the JSON import\<close>

lemma validColor_iff: "validColor color \<longleftrightarrow> color \<in> JStr ` set validColors"
  by (cases color) (auto simp: validColor_def)

lemma validRow_iff:
  "validRow n row \<longleftrightarrow>
     (case row of JArr cs \<Rightarrow> length cs = n \<and> set cs \<subseteq> JStr ` set validColors | _ \<Rightarrow> False)"
  by (cases row) (auto simp: validRow_def list_all_iff validColor_iff)

lemma validFace_iff:
  "validFace n v \<longleftrightarrow>
     (case v of
        Some (JArr rows) \<Rightarrow>
          length rows = n \<and>
          (\<forall>row \<in> set rows.
             case row of JArr cs \<Rightarrow> length cs = n \<and> set cs \<subseteq> JStr ` set validColors
             | _ \<Rightarrow> False)
      | _ \<Rightarrow> False)"
proof (cases v)
  case None
  then show ?thesis by (simp add: validFace_def)
next
  case (Some j)
  then show ?thesis
    by (cases j) (simp_all add: validFace_def list_all_iff validRow_iff)
qed

lemma validFace_object: "validFace n (getProperty fs key) \<Longrightarrow> truthy fs \<and> typeofObject fs"
  by (cases fs) (simp_all add: validFace_def)

text \<open>The validator accepts exactly the configurations the specification describes.\<close>

lemma validate_iff_conforms: "validateCubeData n data = Inr True \<longleftrightarrow> conforms n data"
proof (cases "getProperty data ''faces''")
  case None
  then show ?thesis
    by (simp add: validateCubeData_def conforms_def)
next
  case (Some fs)
  then have notNull: "data \<noteq> JNull" by auto
  have all: "list_all (\<lambda>face. validFace n (getProperty fs face)) requiredFaces
             \<longleftrightarrow> conforms n data"
    using Some by (simp add: conforms_def list_all_iff validFace_iff)
  show ?thesis
  proof (cases "truthy fs \<and> typeofObject fs")
    case True
    with Some notNull all show ?thesis
      by (simp add: validateCubeData_def)
  next
    case False
    have "\<not> validFace n (getProperty fs ''U'')"
      using False validFace_object by blast
    then have "\<not> list_all (\<lambda>face. validFace n (getProperty fs face)) requiredFaces"
      by (simp add: requiredFaces_def)
    with all False Some notNull show ?thesis
      by (auto simp: validateCubeData_def)
  qed
qed

text \<open>
  Claim C9. Every configuration \<open>handleImport\<close> passes to the import callback is the
  parsed input, has passed \<open>validateCubeData\<close> and is a configuration as the
  specification describes it. When the input does not parse, or the parsed value does not
  pass the validator (it returns false or throws), the callback is not invoked at all, an
  error message is set and the input text is kept.
\<close>

theorem import_only_after_validation:
  "(\<forall>cubeData \<in> set (snd (handleImport parse onImportThrows cubeSize' st)).
       parse (jsonInput st) = Some cubeData
       \<and> validateCubeData cubeSize' cubeData = Inr True
       \<and> conforms cubeSize' cubeData)
   \<and> (parse (jsonInput st) = None
        \<or> (\<exists>d. parse (jsonInput st) = Some d \<and> validateCubeData cubeSize' d \<noteq> Inr True)
       \<longrightarrow> snd (handleImport parse onImportThrows cubeSize' st) = []
           \<and> errorMessage (fst (handleImport parse onImportThrows cubeSize' st)) \<noteq> []
           \<and> jsonInput (fst (handleImport parse onImportThrows cubeSize' st)) = jsonInput st)"
proof (cases "parse (jsonInput st)")
  case None
  then show ?thesis by (simp add: handleImport_def Let_def)
next
  case (Some cubeData)
  show ?thesis
  proof (cases "validateCubeData cubeSize' cubeData")
    case (Inl e)
    with Some show ?thesis by (simp add: handleImport_def Let_def)
  next
    case (Inr ok)
    show ?thesis
    proof (cases ok)
      case False
      with Some Inr show ?thesis by (simp add: handleImport_def Let_def)
    next
      case True
      with Inr have "conforms cubeSize' cubeData"
        by (simp add: validate_iff_conforms)
      with Some Inr True show ?thesis by (simp add: handleImport_def Let_def)
    qed
  qed
qed

text \<open>
  Claim C9 on three inputs: a text parsed to the configuration of the solved 2x2 cube is
  imported; a text that does not parse, and a text parsed to \<open>null\<close>, are rejected without
  a call of the callback.
\<close>

theorem import_only_after_validation_witness:
  "snd (handleImport (\<lambda>text. Some solved2Json) (\<lambda>d. False) 2 pastedState) = [solved2Json]
   \<and> validateCubeData 2 solved2Json = Inr True
   \<and> conforms 2 solved2Json
   \<and> snd (handleImport (\<lambda>text. None) (\<lambda>d. False) 2 pastedState) = []
   \<and> errorMessage (fst (handleImport (\<lambda>text. None) (\<lambda>d. False) 2 pastedState)) \<noteq> []
   \<and> validateCubeData 2 JNull \<noteq> Inr True
   \<and> snd (handleImport (\<lambda>text. Some JNull) (\<lambda>d. False) 2 pastedState) = []"
proof -
  have ok: "validateCubeData 2 solved2Json = Inr True"
    by (simp add: validateCubeData_def solved2Json_def solved2Face_def requiredFaces_def
        validFace_def validRow_def validColor_def validColors_def)
  have imported:
    "snd (handleImport (\<lambda>text. Some solved2Json) (\<lambda>d. False) 2 pastedState) = [solved2Json]"
    using ok by (simp add: handleImport_def Let_def)
  have bad: "validateCubeData 2 JNull \<noteq> Inr True"
    by (simp add: validateCubeData_def)
  have "solved2Json \<in> set (snd (handleImport (\<lambda>text. Some solved2Json) (\<lambda>d. False) 2
                                    pastedState))"
    by (simp add: imported)
  with import_only_after_validation
         [of "\<lambda>text. Some solved2Json" "\<lambda>d. False" 2 pastedState]
  have first: "conforms 2 solved2Json"
    by blast
  have second: "snd (handleImport (\<lambda>text. None) (\<lambda>d. False) 2 pastedState) = []
      \<and> errorMessage (fst (handleImport (\<lambda>text. None) (\<lambda>d. False) 2 pastedState)) \<noteq> []"
    using import_only_after_validation [of "\<lambda>text. None" "\<lambda>d. False" 2 pastedState]
    by blast
  have third: "snd (handleImport (\<lambda>text. Some JNull) (\<lambda>d. False) 2 pastedState) = []"
    using import_only_after_validation [of "\<lambda>text. Some JNull" "\<lambda>d. False" 2 pastedState]
      bad
    by blast
  from imported ok first second bad third show ?thesis
    by (intro conjI) (rule imported ok first bad third | rule conjunct1 [OF second]
        | rule conjunct2 [OF second])+
qed

end
